theory Spec2Isabelle
  imports Complex_Main "HOL-Library.Sublist" "HOL-Library.Word"
begin

section \<open>Data model of the graph view (GraphVisualization.tsx)\<close>

text \<open>
  The component under study is \<^verbatim>\<open>src/web/app/components/GraphVisualization.tsx\<close>.
  JavaScript numbers are modelled as real numbers, an optional field (\<^verbatim>\<open>undefined\<close>
  or \<^verbatim>\<open>null\<close>) as \<open>None\<close>, and a JavaScript string as the list of its UTF-16 code
  units, each a 16-bit word.
  The record fields \<^verbatim>\<open>id\<close>, \<^verbatim>\<open>type\<close>, \<^verbatim>\<open>name\<close>, \<^verbatim>\<open>x\<close> and \<^verbatim>\<open>y\<close> of the
  interface \<^verbatim>\<open>GraphNode\<close> carry the prefix \<open>node_\<close>, since the short names are taken.
  The fields \<^verbatim>\<open>vx\<close> and \<^verbatim>\<open>vy\<close> are the velocities that the force library and the
  ego-graph clone attach to a node object.
\<close>

type_synonym code_unit = "16 word"

type_synonym jsstring = "code_unit list"

text \<open>A string literal of ASCII characters, as the list of its code units.\<close>

definition js :: "string \<Rightarrow> jsstring" where
  "js s = map (\<lambda>c. of_nat (of_char c)) s"

record GraphNode =
  node_id :: jsstring
  node_type :: jsstring
  content :: "jsstring option"
  entity_type :: "jsstring option"
  node_name :: "jsstring option"
  canonical_name :: "jsstring option"
  paper_id :: "jsstring option"
  statement :: "jsstring option"
  year :: "real option"
  node_x :: "real option"
  node_y :: "real option"
  fx :: "real option"
  fy :: "real option"
  vx :: "real option"
  vy :: "real option"

text \<open>
  An edge end is \<^verbatim>\<open>string | GraphNode\<close>: a raw node id, or a reference to a node
  object once the force library has bound the edge.
\<close>

datatype endpoint = NodeId jsstring | NodeRef GraphNode

record GraphEdge =
  source :: endpoint
  target :: endpoint
  edge_type :: "jsstring option"
  edge_context :: "jsstring option"

record GraphData =
  nodes :: "GraphNode list"
  edges :: "GraphEdge list"

text \<open>
  A node object as the data provider sends it, with only \<^verbatim>\<open>id\<close> and \<^verbatim>\<open>type\<close> set, and
  an edge between two ids; both for ASCII ids and types.
\<close>

definition plainNode :: "string \<Rightarrow> string \<Rightarrow> GraphNode" where
  "plainNode i t =
     \<lparr>node_id = js i, node_type = js t, content = None, entity_type = None, node_name = None,
      canonical_name = None, paper_id = None, statement = None, year = None,
      node_x = None, node_y = None, fx = None, fy = None, vx = None, vy = None\<rparr>"

definition plainEdge :: "string \<Rightarrow> string \<Rightarrow> GraphEdge" where
  "plainEdge s t =
     \<lparr>source = NodeId (js s), target = NodeId (js t), edge_type = None,
      edge_context = None\<rparr>"

section \<open>String primitives of the host language\<close>

text \<open>
  \<^verbatim>\<open>String.prototype.toLowerCase\<close> follows the case mapping of the Unicode standard, which
  is a table of the host, not code of the repository: the definitions that lower-case a
  string take the host's function as their parameter \<open>lower\<close>, and what is proved of
  them holds for every such function. On a string of ASCII code units the host's
  function is the following one, which maps \<open>A\<close> to \<open>Z\<close> to \<open>a\<close> to \<open>z\<close>; it serves to
  evaluate the sample inputs, which are ASCII.
\<close>

definition toLowerCaseAscii :: "jsstring \<Rightarrow> jsstring" where
  "toLowerCaseAscii s = map (\<lambda>c. if 65 \<le> unat c \<and> unat c \<le> 90 then c + 32 else c) s"

text \<open>
  \<^verbatim>\<open>String.prototype.trim\<close> removes white space and line terminators from both ends:
  the code units U+0009 to U+000D, U+0020, U+00A0, U+1680, U+2000 to U+200A, U+2028,
  U+2029, U+202F, U+205F, U+3000 and U+FEFF.
\<close>

definition isWhiteSpace :: "code_unit \<Rightarrow> bool" where
  "isWhiteSpace c =
     (unat c \<in> {9, 10, 11, 12, 13, 32, 160, 5760, 8232, 8233, 8239, 8287, 12288, 65279} \<or>
      (8192 \<le> unat c \<and> unat c \<le> 8202))"

definition trim :: "jsstring \<Rightarrow> jsstring" where
  "trim s = rev (dropWhile isWhiteSpace (rev (dropWhile isWhiteSpace s)))"

text \<open>\<^verbatim>\<open>s.includes(q)\<close>: \<open>q\<close> occurs in \<open>s\<close> as a contiguous run of code units.\<close>

fun str_includes :: "jsstring \<Rightarrow> jsstring \<Rightarrow> bool" where
  "str_includes [] q = (q = [])"
| "str_includes (c # cs) q = (prefix q (c # cs) \<or> str_includes cs q)"

text \<open>\<^verbatim>\<open>parts.join(sep)\<close>.\<close>

fun join :: "jsstring \<Rightarrow> jsstring list \<Rightarrow> jsstring" where
  "join sep [] = []"
| "join sep [p] = p"
| "join sep (p # q # ps) = p @ sep @ join sep (q # ps)"

text \<open>
  \<^verbatim>\<open>fields.filter(Boolean)\<close> on an array of optional strings: \<^verbatim>\<open>undefined\<close> and the
  empty string are falsy and dropped.
\<close>

fun filterBoolean :: "jsstring option list \<Rightarrow> jsstring list" where
  "filterBoolean [] = []"
| "filterBoolean (None # fs) = filterBoolean fs"
| "filterBoolean (Some s # fs) = (if s = [] then filterBoolean fs else s # filterBoolean fs)"

section \<open>Search and type filter (the filtering effect, lines 359--388)\<close>

text \<open>In what follows \<open>lower\<close> is the host's \<^verbatim>\<open>toLowerCase\<close>.\<close>

definition searchText :: "(jsstring \<Rightarrow> jsstring) \<Rightarrow> GraphNode \<Rightarrow> jsstring" where
  "searchText lower n =
     lower (join (js '' '')
       (filterBoolean [Some (node_id n), node_name n, canonical_name n, paper_id n,
                       Some (node_type n), entity_type n, content n]))"

definition filterNodes :: "(jsstring \<Rightarrow> jsstring) \<Rightarrow> GraphData \<Rightarrow> jsstring \<Rightarrow> jsstring list \<Rightarrow> GraphNode list" where
  "filterNodes lower g searchQuery selectedTypes =
     (let filtered = nodes g;
          filtered = (if length selectedTypes > 0
                      then filter (\<lambda>n. node_type n \<in> set selectedTypes) filtered
                      else filtered);
          filtered = (if trim searchQuery \<noteq> []
                      then filter (\<lambda>n. str_includes (searchText lower n) (lower searchQuery))
                             filtered
                      else filtered)
      in filtered)"

section \<open>Ego network of the selected node (findConnectedNodes, lines 516--537)\<close>

text \<open>
  \<^verbatim>\<open>edge.target === nodeId\<close> compares an edge end with a string: an end that is a node
  object is never strictly equal to a string.
\<close>

fun strictEq :: "endpoint \<Rightarrow> jsstring \<Rightarrow> bool" where
  "strictEq (NodeId s) nodeId = (s = nodeId)"
| "strictEq (NodeRef n) nodeId = False"

record ConnectedNodes =
  incoming :: "(GraphNode \<times> GraphEdge) list"
  outgoing :: "(GraphNode \<times> GraphEdge) list"

text \<open>\<^verbatim>\<open>graphData.nodes.find(n => n.id === end)\<close>.\<close>

fun findNode :: "GraphNode list \<Rightarrow> endpoint \<Rightarrow> GraphNode option" where
  "findNode ns (NodeId s) = find (\<lambda>n. node_id n = s) ns"
| "findNode ns (NodeRef r) = None"

text \<open>The body of the \<^verbatim>\<open>forEach\<close> callback; \<^verbatim>\<open>push\<close> appends at the end.\<close>

definition classifyEdge :: "GraphData \<Rightarrow> jsstring \<Rightarrow> GraphEdge \<Rightarrow> ConnectedNodes \<Rightarrow> ConnectedNodes" where
  "classifyEdge g nodeId e acc =
     (if strictEq (target e) nodeId then
        (case findNode (nodes g) (source e) of
           Some sourceNode \<Rightarrow> acc\<lparr>incoming := incoming acc @ [(sourceNode, e)]\<rparr>
         | None \<Rightarrow> acc)
      else if strictEq (source e) nodeId then
        (case findNode (nodes g) (target e) of
           Some targetNode \<Rightarrow> acc\<lparr>outgoing := outgoing acc @ [(targetNode, e)]\<rparr>
         | None \<Rightarrow> acc)
      else acc)"

definition findConnectedNodes :: "GraphData option \<Rightarrow> jsstring \<Rightarrow> ConnectedNodes" where
  "findConnectedNodes graphData nodeId =
     (case graphData of
        None \<Rightarrow> \<lparr>incoming = [], outgoing = []\<rparr>
      | Some g \<Rightarrow> fold (classifyEdge g nodeId) (edges g) \<lparr>incoming = [], outgoing = []\<rparr>)"

text \<open>
  The same two lists written as one pass per list over the edge array: an edge whose
  target is the node contributes the node found for its source; an edge whose source
  is the node, and whose target is not, contributes the node found for its target.
\<close>

definition incomingPair :: "GraphData \<Rightarrow> jsstring \<Rightarrow> GraphEdge \<Rightarrow> (GraphNode \<times> GraphEdge) option" where
  "incomingPair g nodeId e =
     (if strictEq (target e) nodeId
      then map_option (\<lambda>m. (m, e)) (findNode (nodes g) (source e)) else None)"

definition outgoingPair :: "GraphData \<Rightarrow> jsstring \<Rightarrow> GraphEdge \<Rightarrow> (GraphNode \<times> GraphEdge) option" where
  "outgoingPair g nodeId e =
     (if strictEq (source e) nodeId \<and> \<not> strictEq (target e) nodeId
      then map_option (\<lambda>m. (m, e)) (findNode (nodes g) (target e)) else None)"

definition isSelfLoop :: "jsstring \<Rightarrow> GraphNode \<times> GraphEdge \<Rightarrow> bool" where
  "isSelfLoop nodeId p = (strictEq (source (snd p)) nodeId \<and> strictEq (target (snd p)) nodeId)"

text \<open>What the specification text asks of the edges listed: all edges into, or out of, the node.\<close>

definition edgesInto :: "GraphData \<Rightarrow> jsstring \<Rightarrow> GraphEdge list" where
  "edgesInto g nodeId = filter (\<lambda>e. strictEq (target e) nodeId) (edges g)"

definition edgesOutOf :: "GraphData \<Rightarrow> jsstring \<Rightarrow> GraphEdge list" where
  "edgesOutOf g nodeId = filter (\<lambda>e. strictEq (source e) nodeId) (edges g)"

section \<open>Component state\<close>

text \<open>The d3 zoom transform \<^verbatim>\<open>{k, x, y}\<close> and the operations the component calls on it.\<close>

record ZoomTransform =
  zoom_k :: real
  zoom_x :: real
  zoom_y :: real

definition zoomIdentity :: ZoomTransform where
  "zoomIdentity = \<lparr>zoom_k = 1, zoom_x = 0, zoom_y = 0\<rparr>"

definition translate :: "ZoomTransform \<Rightarrow> real \<Rightarrow> real \<Rightarrow> ZoomTransform" where
  "translate t a b = t\<lparr>zoom_x := zoom_x t + zoom_k t * a, zoom_y := zoom_y t + zoom_k t * b\<rparr>"

definition scale :: "ZoomTransform \<Rightarrow> real \<Rightarrow> ZoomTransform" where
  "scale t s = t\<lparr>zoom_k := zoom_k t * s\<rparr>"

record ZoomBehavior =
  scaleExtent :: "real \<times> real"

record Simulation =
  sim_nodes :: "GraphNode list"
  sim_links :: "GraphEdge list"
  alpha :: real
  alphaTarget :: real

text \<open>
  The state hooks and refs of the component, with the part of the DOM it reads and
  writes: whether the main \<^verbatim>\<open>svg\<close> element is mounted (\<^verbatim>\<open>svgRef.current\<close>), the
  size of its parent (\<^verbatim>\<open>clientWidth\<close>, \<^verbatim>\<open>clientHeight\<close>) and the zoom transform
  applied to it.
\<close>

record ViewState =
  graphData :: "GraphData option"
  loading :: bool
  error :: "jsstring option"
  selectedNode :: "GraphNode option"
  showFullContent :: bool
  connectedNodes :: ConnectedNodes
  showLocalGraph :: bool
  panelWidth :: real
  showSearchPanel :: bool
  searchQuery :: jsstring
  filteredNodes :: "GraphNode list"
  selectedTypes :: "jsstring list"
  svgMounted :: bool
  zoomBehaviorRef :: "ZoomBehavior option"
  simulationRef :: "Simulation option"
  clientWidth :: "real option"
  clientHeight :: "real option"
  transform :: ZoomTransform

text \<open>The initial values of the hooks; nothing is mounted yet.\<close>

definition initialState :: ViewState where
  "initialState =
     \<lparr>graphData = None, loading = False, error = None, selectedNode = None,
      showFullContent = False, connectedNodes = \<lparr>incoming = [], outgoing = []\<rparr>,
      showLocalGraph = False, panelWidth = 384, showSearchPanel = False, searchQuery = [],
      filteredNodes = [], selectedTypes = [], svgMounted = False, zoomBehaviorRef = None,
      simulationRef = None, clientWidth = None, clientHeight = None,
      transform = zoomIdentity\<rparr>"

text \<open>The filtering effect: without graph data it returns at once.\<close>

definition filterEffect :: "(jsstring \<Rightarrow> jsstring) \<Rightarrow> ViewState \<Rightarrow> ViewState" where
  "filterEffect lower st =
     (case graphData st of
        None \<Rightarrow> st
      | Some g \<Rightarrow>
          st\<lparr>filteredNodes := filterNodes lower g (searchQuery st) (selectedTypes st)\<rparr>)"

section \<open>Rendering branches and the simulation effect (lines 125--168, 818--857)\<close>

text \<open>\<^verbatim>\<open>v || d\<close> on an optional number: \<^verbatim>\<open>undefined\<close> and \<open>0\<close> are falsy.\<close>

definition orDefault :: "real option \<Rightarrow> real \<Rightarrow> real" where
  "orDefault v d = (case v of None \<Rightarrow> d | Some r \<Rightarrow> if r = 0 then d else r)"

text \<open>
  What the component returns: the loading screen, the error screen (\<^verbatim>\<open>if (error)\<close>
  holds for a non-empty message), the ``no data'' message (\<^verbatim>\<open>if (!graphData)\<close>), or
  the graph view with the canvas.
\<close>

datatype View = LoadingView | ErrorView jsstring | NoDataView | GraphView GraphData

definition renderGraph :: "ViewState \<Rightarrow> View" where
  "renderGraph st = (case graphData st of None \<Rightarrow> NoDataView | Some g \<Rightarrow> GraphView g)"

definition render :: "ViewState \<Rightarrow> View" where
  "render st =
     (if loading st then LoadingView
      else case error st of
             None \<Rightarrow> renderGraph st
           | Some msg \<Rightarrow> if msg \<noteq> [] then ErrorView msg else renderGraph st)"

text \<open>\<^verbatim>\<open>d3.zoom().scaleExtent([0.1, 4])\<close>, the zoom behaviour of the main canvas.\<close>

definition mainZoom :: ZoomBehavior where
  "mainZoom = \<lparr>scaleExtent = (1 / 10, 4)\<rparr>"

text \<open>
  The force library is not part of the repository's sources; what it does to the node and
  link arrays it is given is modelled from its documentation.

  \<^verbatim>\<open>d3.forceSimulation(nodes)\<close> initialises every node when it is made: a pinned axis
  takes the pin; a node without \<^verbatim>\<open>x\<close> or without \<^verbatim>\<open>y\<close> is placed on a spiral, node
  \<open>i\<close> at radius \<open>10 * sqrt (0.5 + i)\<close> and angle \<open>i * \<pi> * (3 - sqrt 5)\<close>; a node without
  \<^verbatim>\<open>vx\<close> or without \<^verbatim>\<open>vy\<close> gets velocity zero. The simulation starts at temperature 1
  with target 0. (The library also numbers the nodes, in a field that the component
  never reads.)
\<close>

definition initializeNode :: "nat \<times> GraphNode \<Rightarrow> GraphNode" where
  "initializeNode p =
     (case p of (i, d) \<Rightarrow>
        (let d1 = d\<lparr>node_x := (case fx d of None \<Rightarrow> node_x d | Some q \<Rightarrow> Some q),
                    node_y := (case fy d of None \<Rightarrow> node_y d | Some q \<Rightarrow> Some q)\<rparr>;
             d2 = (if node_x d1 = None \<or> node_y d1 = None
                   then (let radius = 10 * sqrt (1 / 2 + real i);
                             angle = real i * (pi * (3 - sqrt 5))
                         in d1\<lparr>node_x := Some (radius * cos angle),
                               node_y := Some (radius * sin angle)\<rparr>)
                   else d1)
         in if vx d2 = None \<or> vy d2 = None then d2\<lparr>vx := Some 0, vy := Some 0\<rparr> else d2))"

definition initializeNodes :: "GraphNode list \<Rightarrow> GraphNode list" where
  "initializeNodes ns = map initializeNode (enumerate 0 ns)"

definition forceSimulation :: "GraphNode list \<Rightarrow> Simulation" where
  "forceSimulation ns =
     \<lparr>sim_nodes = initializeNodes ns, sim_links = [], alpha = 1, alphaTarget = 0\<rparr>"

text \<open>
  \<^verbatim>\<open>.force("link", d3.forceLink(links).id(d => d.id))\<close> binds the links to the nodes:
  an end that is not yet a node object is looked up by id (of two nodes with the same
  id the later one is taken), and the library throws \<^verbatim>\<open>node not found\<close> at the first
  end whose id no node has.
\<close>

datatype EffectError = NodeNotFound jsstring

fun resolveEnd :: "GraphNode list \<Rightarrow> endpoint \<Rightarrow> EffectError + endpoint" where
  "resolveEnd ns (NodeRef r) = Inr (NodeRef r)"
| "resolveEnd ns (NodeId s) =
     (case find (\<lambda>n. node_id n = s) (rev ns) of
        None \<Rightarrow> Inl (NodeNotFound s)
      | Some n \<Rightarrow> Inr (NodeRef n))"

fun bindLinks :: "GraphNode list \<Rightarrow> GraphEdge list \<Rightarrow> EffectError + GraphEdge list" where
  "bindLinks ns [] = Inr []"
| "bindLinks ns (l # ls) =
     (case resolveEnd ns (source l) of
        Inl e \<Rightarrow> Inl e
      | Inr s \<Rightarrow>
          (case resolveEnd ns (target l) of
             Inl e \<Rightarrow> Inl e
           | Inr t \<Rightarrow>
               (case bindLinks ns ls of
                  Inl e \<Rightarrow> Inl e
                | Inr ls' \<Rightarrow> Inr (l\<lparr>source := s, target := t\<rparr> # ls'))))"

definition forceLink :: "GraphEdge list \<Rightarrow> Simulation \<Rightarrow> EffectError + Simulation" where
  "forceLink ls sim =
     (case bindLinks (sim_nodes sim) ls of
        Inl e \<Rightarrow> Inl e
      | Inr ls' \<Rightarrow> Inr (sim\<lparr>sim_links := ls'\<rparr>))"

text \<open>
  The simulation that the effect makes for the graph data, over copies of its nodes and
  edges (\<^verbatim>\<open>graphData.nodes.map(d => ({...d}))\<close>; a copy has the field values of its
  original).
\<close>

definition startSimulation :: "GraphData \<Rightarrow> EffectError + Simulation" where
  "startSimulation g = forceLink (edges g) (forceSimulation (nodes g))"

text \<open>
  The first part of the simulation effect, up to \<^verbatim>\<open>simulationRef.current = simulation\<close>:
  it returns at once without graph data or without the mounted \<^verbatim>\<open>svg\<close> element. An
  exception of the library leaves the effect, and with it the component: the result is
  then the error.
\<close>

definition initSimulation :: "ViewState \<Rightarrow> EffectError + ViewState" where
  "initSimulation st =
     (case graphData st of
        None \<Rightarrow> Inr st
      | Some g \<Rightarrow>
          if \<not> svgMounted st then Inr st
          else (case startSimulation g of
                  Inl e \<Rightarrow> Inl e
                | Inr simulation \<Rightarrow>
                    Inr (st\<lparr>zoomBehaviorRef := Some mainZoom,
                            simulationRef := Some simulation\<rparr>)))"

section \<open>Viewport: user zoom, focus and reset\<close>

text \<open>
  Modelled from the spec: the gesture handling of the d3-zoom library, which is not part
  of the repository's sources. ``User-driven pan/zoom (drag-to-pan, wheel-to-zoom)
  directly sets the transform, clamped to the configured scale bounds.''
\<close>

definition clampScale :: "ZoomBehavior \<Rightarrow> real \<Rightarrow> real" where
  "clampScale z k = max (fst (scaleExtent z)) (min (snd (scaleExtent z)) k)"

definition applyUserPanZoom :: "ZoomBehavior \<Rightarrow> ZoomTransform \<Rightarrow> ZoomTransform" where
  "applyUserPanZoom z requested = requested\<lparr>zoom_k := clampScale z (zoom_k requested)\<rparr>"

text \<open>A wheel step \<open>delta\<close> asks for the current scale times \<open>2\<close> to the power \<open>delta\<close>.\<close>

definition wheelZoom :: "ZoomBehavior \<Rightarrow> real \<Rightarrow> ZoomTransform \<Rightarrow> ZoomTransform" where
  "wheelZoom z delta t = applyUserPanZoom z (t\<lparr>zoom_k := zoom_k t * 2 powr delta\<rparr>)"

text \<open>\<^verbatim>\<open>resetZoom\<close>: back to the identity transform, if canvas and zoom behaviour exist.\<close>

definition resetZoom :: "ViewState \<Rightarrow> ViewState" where
  "resetZoom st =
     (if svgMounted st \<and> zoomBehaviorRef st \<noteq> None then st\<lparr>transform := zoomIdentity\<rparr> else st)"

text \<open>
  \<^verbatim>\<open>performFocus\<close> of \<^verbatim>\<open>focusOnNodeFromSearch\<close>: with both coordinates defined, the
  canvas is moved (by a transition, of which the end state is kept here) to
  \<^verbatim>\<open>zoomIdentity.translate(w / 2, h / 2).scale(2.5).translate(-x, -y)\<close>.
\<close>

definition performFocus :: "GraphNode \<Rightarrow> ViewState \<Rightarrow> ViewState" where
  "performFocus nodeToFocus st =
     (case (node_x nodeToFocus, node_y nodeToFocus) of
        (Some px, Some py) \<Rightarrow>
          (let currentWidth = orDefault (clientWidth st) 1200;
               currentHeight = orDefault (clientHeight st) 800
           in st\<lparr>transform :=
                   translate (scale (translate zoomIdentity (currentWidth / 2) (currentHeight / 2))
                                    (5 / 2)) (- px) (- py)\<rparr>)
      | _ \<Rightarrow> st)"

text \<open>
  The polling of \<^verbatim>\<open>focusOnNodeFromSearch\<close>. The polled node object is changed by the
  simulation between two timer callbacks: \<open>obs a d\<close> is the object, which was \<open>d\<close> when
  focus was invoked, as the callback of attempt \<open>a\<close> reads it. At most 8 attempts, 250
  ms apart.
\<close>

function tryFocus :: "(nat \<Rightarrow> GraphNode \<Rightarrow> GraphNode) \<Rightarrow> GraphNode \<Rightarrow> nat \<Rightarrow> ViewState \<Rightarrow> ViewState" where
  "tryFocus obs nodeToCheck attempts st =
     (if node_x (obs (attempts + 1) nodeToCheck) \<noteq> None \<and>
         node_y (obs (attempts + 1) nodeToCheck) \<noteq> None
      then performFocus (obs (attempts + 1) nodeToCheck) st
      else if attempts + 1 < 8 then tryFocus obs nodeToCheck (attempts + 1) st
      else st)"
  by pat_completeness auto
termination
  by (relation "measure (\<lambda>(obs, d, attempts, st). 8 - attempts)") auto

definition focusOnNodeFromSearch :: "(nat \<Rightarrow> GraphNode \<Rightarrow> GraphNode) \<Rightarrow> ViewState \<Rightarrow> jsstring \<Rightarrow> ViewState" where
  "focusOnNodeFromSearch obs st nodeId =
     (case graphData st of
        None \<Rightarrow> st
      | Some g \<Rightarrow>
          if \<not> svgMounted st then st
          else case find (\<lambda>n. node_id n = nodeId) (nodes g) of
                 None \<Rightarrow> st
               | Some targetNode \<Rightarrow>
                   if zoomBehaviorRef st = None then st
                   else
                     let st1 = st\<lparr>selectedNode := Some targetNode, showFullContent := False,
                                  showLocalGraph := False\<rparr>
                     in case (case simulationRef st of
                                None \<Rightarrow> None
                              | Some sim \<Rightarrow> find (\<lambda>n. node_id n = nodeId) (sim_nodes sim)) of
                          None \<Rightarrow> tryFocus obs targetNode 0 st1
                        | Some simulationNode \<Rightarrow>
                            if node_x simulationNode \<noteq> None then performFocus simulationNode st1
                            else tryFocus obs simulationNode 0 st1)"

text \<open>
  The focus block at the end of the simulation effect (lines 264--294), for the
  \<^verbatim>\<open>focusNodeId\<close> property: the target is looked up among the simulation's nodes by id
  or by paper id; at most 10 attempts, 200 ms apart.
\<close>

function tryFocusTarget :: "(nat \<Rightarrow> GraphNode \<Rightarrow> GraphNode) \<Rightarrow> real \<Rightarrow> real \<Rightarrow> GraphNode \<Rightarrow> nat \<Rightarrow> ViewState \<Rightarrow> ViewState" where
  "tryFocusTarget obs width height targetNode attempts st =
     (case (node_x (obs (attempts + 1) targetNode), node_y (obs (attempts + 1) targetNode)) of
        (Some px, Some py) \<Rightarrow>
          st\<lparr>transform := scale (translate zoomIdentity (width / 2 - px) (height / 2 - py)) (5 / 2)\<rparr>
      | _ \<Rightarrow> if attempts + 1 < 10
             then tryFocusTarget obs width height targetNode (attempts + 1) st
             else st)"
  by pat_completeness auto
termination
  by (relation "measure (\<lambda>(obs, w, h, d, attempts, st). 10 - attempts)") auto

definition focusTarget :: "(nat \<Rightarrow> GraphNode \<Rightarrow> GraphNode) \<Rightarrow> jsstring option \<Rightarrow> GraphNode list \<Rightarrow> ViewState \<Rightarrow> ViewState" where
  "focusTarget obs focusNodeId simNodes st =
     (case focusNodeId of
        None \<Rightarrow> st
      | Some f \<Rightarrow>
          if f = [] then st
          else case find (\<lambda>n. node_id n = f \<or> paper_id n = Some f) simNodes of
                 None \<Rightarrow> st
               | Some targetNode \<Rightarrow>
                   tryFocusTarget obs (orDefault (clientWidth st) 1200)
                     (orDefault (clientHeight st) 800) targetNode 0
                     (st\<lparr>selectedNode := Some targetNode\<rparr>))"

text \<open>The whole simulation effect for a given \<^verbatim>\<open>focusNodeId\<close> property.\<close>

definition simulationEffect :: "(nat \<Rightarrow> GraphNode \<Rightarrow> GraphNode) \<Rightarrow> jsstring option \<Rightarrow> ViewState \<Rightarrow> EffectError + ViewState" where
  "simulationEffect obs focusNodeId st =
     (case graphData st of
        None \<Rightarrow> Inr st
      | Some g \<Rightarrow>
          if \<not> svgMounted st then Inr st
          else (case startSimulation g of
                  Inl e \<Rightarrow> Inl e
                | Inr simulation \<Rightarrow>
                    Inr (focusTarget obs focusNodeId (sim_nodes simulation)
                           (st\<lparr>zoomBehaviorRef := Some mainZoom,
                               simulationRef := Some simulation\<rparr>))))"

text \<open>\<^verbatim>\<open>focusOnNode\<close>, called from the connection lists and from the ego graph.\<close>

definition focusOnNode :: "ViewState \<Rightarrow> jsstring \<Rightarrow> ViewState" where
  "focusOnNode st nodeId =
     (case (case graphData st of None \<Rightarrow> None
            | Some g \<Rightarrow> find (\<lambda>n. node_id n = nodeId) (nodes g)) of
        None \<Rightarrow> st
      | Some node \<Rightarrow>
          if svgMounted st \<and> zoomBehaviorRef st \<noteq> None then
            (let st1 =
               (case (case simulationRef st of None \<Rightarrow> None
                      | Some sim \<Rightarrow> find (\<lambda>n. node_id n = nodeId) (sim_nodes sim)) of
                  None \<Rightarrow> st
                | Some simulationNode \<Rightarrow>
                    st\<lparr>transform :=
                         translate (scale (translate zoomIdentity 960 540) (5 / 2))
                           (- orDefault (node_x simulationNode) 0)
                           (- orDefault (node_y simulationNode) 0)\<rparr>)
             in st1\<lparr>selectedNode := Some node, showFullContent := False,
                    showLocalGraph := False\<rparr>)
          else st)"

section \<open>Dragging a node of the main simulation (lines 185--199)\<close>

text \<open>
  A drag event carries the pointer position and \<^verbatim>\<open>event.active\<close>, the number of other
  gestures in progress. The dragged datum \<^verbatim>\<open>d\<close> is a node object of the simulation,
  here the node at index \<open>i\<close> of its node array.
\<close>

record DragEvent =
  ev_active :: nat
  ev_x :: real
  ev_y :: real

definition updNode :: "nat \<Rightarrow> (GraphNode \<Rightarrow> GraphNode) \<Rightarrow> Simulation \<Rightarrow> Simulation" where
  "updNode i f sim = sim\<lparr>sim_nodes := (sim_nodes sim)[i := f (sim_nodes sim ! i)]\<rparr>"

definition dragStart :: "DragEvent \<Rightarrow> nat \<Rightarrow> Simulation \<Rightarrow> Simulation" where
  "dragStart ev i sim =
     updNode i (\<lambda>d. d\<lparr>fx := node_x d, fy := node_y d\<rparr>)
       (if ev_active ev = 0 then sim\<lparr>alphaTarget := 3 / 10\<rparr> else sim)"

definition dragMove :: "DragEvent \<Rightarrow> nat \<Rightarrow> Simulation \<Rightarrow> Simulation" where
  "dragMove ev i sim = updNode i (\<lambda>d. d\<lparr>fx := Some (ev_x ev), fy := Some (ev_y ev)\<rparr>) sim"

definition dragEnd :: "DragEvent \<Rightarrow> nat \<Rightarrow> Simulation \<Rightarrow> Simulation" where
  "dragEnd ev i sim =
     updNode i (\<lambda>d. d\<lparr>fx := None, fy := None\<rparr>)
       (if ev_active ev = 0 then sim\<lparr>alphaTarget := 0\<rparr> else sim)"

text \<open>
  Modelled from the spec: one tick of the force library, which is not part of the
  repository's sources. ``A node with a non-null pinnedPosition is excluded from
  integration on that axis: its position is forced to the pinned value every tick.''
  On a free axis the node moves to where the forces take it: \<open>integ d\<close> gives that
  position and velocity \<open>(x, y, vx, vy)\<close> for node \<open>d\<close>.
\<close>

definition tickNode :: "(GraphNode \<Rightarrow> real \<times> real \<times> real \<times> real) \<Rightarrow> GraphNode \<Rightarrow> GraphNode" where
  "tickNode integ d =
     (case integ d of (nx, ny, nvx, nvy) \<Rightarrow>
        d\<lparr>node_x := Some (case fx d of None \<Rightarrow> nx | Some p \<Rightarrow> p),
          vx := Some (case fx d of None \<Rightarrow> nvx | Some p \<Rightarrow> 0),
          node_y := Some (case fy d of None \<Rightarrow> ny | Some p \<Rightarrow> p),
          vy := Some (case fy d of None \<Rightarrow> nvy | Some p \<Rightarrow> 0)\<rparr>)"

definition tick :: "(GraphNode \<Rightarrow> real \<times> real \<times> real \<times> real) \<Rightarrow> Simulation \<Rightarrow> Simulation" where
  "tick integ sim = sim\<lparr>sim_nodes := map (tickNode integ) (sim_nodes sim)\<rparr>"

text \<open>
  Between the start and the end of a gesture, pointer moves and simulation ticks
  arrive in any order.
\<close>

datatype DragStep = Move DragEvent | Tick "GraphNode \<Rightarrow> real \<times> real \<times> real \<times> real"

fun dragStep :: "nat \<Rightarrow> DragStep \<Rightarrow> Simulation \<Rightarrow> Simulation" where
  "dragStep i (Move ev) sim = dragMove ev i sim"
| "dragStep i (Tick integ) sim = tick integ sim"

definition dragSequence :: "nat \<Rightarrow> DragEvent \<Rightarrow> DragStep list \<Rightarrow> DragEvent \<Rightarrow> Simulation \<Rightarrow> Simulation" where
  "dragSequence i evStart steps evEnd sim =
     dragEnd evEnd i (fold (dragStep i) steps (dragStart evStart i sim))"

section \<open>The ego graph of the side panel (createLocalGraph, lines 550--745)\<close>

definition localWidth :: "real \<Rightarrow> real" where
  "localWidth pw = max 280 (pw - 40)"

definition localHeight :: "real \<Rightarrow> real" where
  "localHeight pw = max 250 (min 400 (pw * (6 / 10)))"

text \<open>
  The callback of \<^verbatim>\<open>localNodes.map((d, i) => ...)\<close>: a copy of \<open>d\<close> (\<^verbatim>\<open>{...d, ...}\<close>)
  with its start position; \<open>len\<close> is \<^verbatim>\<open>localNodes.length\<close>, at least 2 here.
\<close>

definition cloneLocal :: "real \<Rightarrow> real \<Rightarrow> GraphNode \<Rightarrow> nat \<Rightarrow> nat \<times> GraphNode \<Rightarrow> GraphNode" where
  "cloneLocal width height selected len p =
     (case p of (i, d) \<Rightarrow>
        if node_id d = node_id selected then
          d\<lparr>node_x := Some (width / 2), node_y := Some (height / 2),
            vx := Some 0, vy := Some 0,
            fx := Some (width / 2), fy := Some (height / 2)\<rparr>
        else
          (let angle = (real i * 2 * pi) / (real len - 1);
               radius = 80
           in d\<lparr>node_x := Some (width / 2 + cos angle * radius),
                node_y := Some (height / 2 + sin angle * radius),
                vx := Some 0, vy := Some 0\<rparr>))"

definition nodesCopy :: "real \<Rightarrow> real \<Rightarrow> GraphNode \<Rightarrow> GraphNode list \<Rightarrow> GraphNode list" where
  "nodesCopy width height selected localNodes =
     map (cloneLocal width height selected (length localNodes)) (enumerate 0 localNodes)"

text \<open>
  Node objects are shared between the graph data, the main simulation, the selection
  and the connection lists, so the objects live in a heap: a list of node objects,
  an object's address being its index. A copy is a new object at a fresh address.
\<close>

type_synonym addr = nat

record LocalSimulation =
  ls_nodes :: "addr list"
  ls_width :: real
  ls_height :: real
  ls_selected :: addr

text \<open>
  \<^verbatim>\<open>createLocalGraph\<close> on the heap: \<open>selected\<close> is the selected node object if any,
  \<open>mounted\<close> tells whether \<^verbatim>\<open>localGraphRef.current\<close> exists, \<open>inc\<close> and \<open>out\<close> are the
  node objects of the incoming and outgoing connections. With one local node only, the
  node is drawn and no simulation is made. Otherwise \<^verbatim>\<open>d3.forceSimulation(nodesCopy)\<close>
  initialises the copies as it does for any node array. (The links of the ego graph
  join the selected node and a listed neighbour, so binding them finds every end.)
\<close>

definition createLocalGraph :: "GraphNode list \<Rightarrow> addr option \<Rightarrow> bool \<Rightarrow> bool \<Rightarrow> addr list \<Rightarrow> addr list \<Rightarrow> real \<Rightarrow> GraphNode list \<times> LocalSimulation option" where
  "createLocalGraph heap selected mounted showLocal inc out pw =
     (case selected of
        None \<Rightarrow> (heap, None)
      | Some sel \<Rightarrow>
          if \<not> mounted \<or> \<not> showLocal then (heap, None)
          else
            (let width = localWidth pw;
                 height = localHeight pw;
                 localNodes = sel # inc @ out
             in if length localNodes \<le> 1 then (heap, None)
                else
                  (let copies = initializeNodes
                                  (nodesCopy width height (heap ! sel) (map ((!) heap) localNodes))
                   in (heap @ copies,
                       Some \<lparr>ls_nodes = [length heap ..< length heap + length copies],
                             ls_width = width, ls_height = height, ls_selected = sel\<rparr>))))"

text \<open>Writing through a reference: \<open>modify a f heap\<close> changes the object at address \<open>a\<close>.\<close>

definition modify :: "addr \<Rightarrow> (GraphNode \<Rightarrow> GraphNode) \<Rightarrow> GraphNode list \<Rightarrow> GraphNode list" where
  "modify a f heap = heap[a := f (heap ! a)]"

text \<open>The bounds check of the tick handler, \<^verbatim>\<open>nodesCopy.forEach(d => ...)\<close>.\<close>

definition keepInBounds :: "real \<Rightarrow> real \<Rightarrow> GraphNode \<Rightarrow> GraphNode" where
  "keepInBounds width height d =
     d\<lparr>node_x := Some (max 25 (min (width - 25) (orDefault (node_x d) (width / 2)))),
       node_y := Some (max 25 (min (height - 25) (orDefault (node_y d) (height / 2))))\<rparr>"

text \<open>
  One tick of the local simulation: the library moves the nodes it was given (the
  copies), then the handler keeps them within the panel.
\<close>

definition localTick :: "(GraphNode \<Rightarrow> real \<times> real \<times> real \<times> real) \<Rightarrow> LocalSimulation \<Rightarrow> GraphNode list \<Rightarrow> GraphNode list" where
  "localTick integ ls heap =
     fold (\<lambda>a. modify a (keepInBounds (ls_width ls) (ls_height ls))) (ls_nodes ls)
       (fold (\<lambda>a. modify a (tickNode integ)) (ls_nodes ls) heap)"

text \<open>
  The timer callback after one second:
  \<^verbatim>\<open>nodesCopy.find(n => n.id === selectedNode.id)\<close>, and the pin of that copy is cleared.
\<close>

definition releasePin :: "LocalSimulation \<Rightarrow> GraphNode list \<Rightarrow> GraphNode list" where
  "releasePin ls heap =
     (case find (\<lambda>a. node_id (heap ! a) = node_id (heap ! ls_selected ls)) (ls_nodes ls) of
        None \<Rightarrow> heap
      | Some centerNode \<Rightarrow> modify centerNode (\<lambda>d. d\<lparr>fx := None, fy := None\<rparr>) heap)"

datatype LocalEvent = LocalTick "GraphNode \<Rightarrow> real \<times> real \<times> real \<times> real" | ReleasePin

fun localStep :: "LocalSimulation \<Rightarrow> LocalEvent \<Rightarrow> GraphNode list \<Rightarrow> GraphNode list" where
  "localStep ls (LocalTick integ) heap = localTick integ ls heap"
| "localStep ls ReleasePin heap = releasePin ls heap"

text \<open>The life of the ego graph: made once, then ticks and the pin release in any order.\<close>

fun localRun :: "LocalSimulation option \<Rightarrow> LocalEvent list \<Rightarrow> GraphNode list \<Rightarrow> GraphNode list" where
  "localRun None evs heap = heap"
| "localRun (Some ls) evs heap = fold (localStep ls) evs heap"

section \<open>Events that change the viewport\<close>

text \<open>
  What can change the zoom transform of the main canvas: a run of the simulation effect
  (with the focus block for \<^verbatim>\<open>focusNodeId\<close>), a user gesture, handled by the zoom
  behaviour attached to the canvas if there is one, the reset button, and the two ways of
  focusing on a node.
\<close>

datatype ViewportEvent =
    RunSimulationEffect "nat \<Rightarrow> GraphNode \<Rightarrow> GraphNode" "jsstring option"
  | UserPanZoom ZoomTransform
  | WheelZoom real
  | ResetZoom
  | FocusFromSearch "nat \<Rightarrow> GraphNode \<Rightarrow> GraphNode" jsstring
  | FocusOnNode jsstring

fun viewportStep :: "ViewportEvent \<Rightarrow> ViewState \<Rightarrow> EffectError + ViewState" where
  "viewportStep (RunSimulationEffect obs focusNodeId) st = simulationEffect obs focusNodeId st"
| "viewportStep (UserPanZoom requested) st =
     (case zoomBehaviorRef st of
        None \<Rightarrow> Inr st
      | Some z \<Rightarrow> Inr (st\<lparr>transform := applyUserPanZoom z requested\<rparr>))"
| "viewportStep (WheelZoom delta) st =
     (case zoomBehaviorRef st of
        None \<Rightarrow> Inr st
      | Some z \<Rightarrow> Inr (st\<lparr>transform := wheelZoom z delta (transform st)\<rparr>))"
| "viewportStep ResetZoom st = Inr (resetZoom st)"
| "viewportStep (FocusFromSearch obs nodeId) st = Inr (focusOnNodeFromSearch obs st nodeId)"
| "viewportStep (FocusOnNode nodeId) st = Inr (focusOnNode st nodeId)"

text \<open>A sequence of events ends at the first exception.\<close>

fun viewportRun :: "ViewportEvent list \<Rightarrow> ViewState \<Rightarrow> EffectError + ViewState" where
  "viewportRun [] st = Inr st"
| "viewportRun (ev # evs) st =
     (case viewportStep ev st of
        Inl e \<Rightarrow> Inl e
      | Inr st' \<Rightarrow> viewportRun evs st')"

text \<open>The scale of the current transform lies within the extent \<open>[0.1, 4]\<close>.\<close>

definition scaleInExtent :: "ViewState \<Rightarrow> bool" where
  "scaleInExtent st =
     ((zoomBehaviorRef st = None \<or> zoomBehaviorRef st = Some mainZoom) \<and>
      1 / 10 \<le> zoom_k (transform st) \<and> zoom_k (transform st) \<le> 4)"

section \<open>The field list of the specification text, and sample inputs\<close>

text \<open>
  The search text as the specification describes it: the fields \<^verbatim>\<open>id\<close>, \<^verbatim>\<open>name\<close>,
  \<^verbatim>\<open>canonicalName\<close>, \<^verbatim>\<open>statement\<close>, \<^verbatim>\<open>type\<close>, \<^verbatim>\<open>entityType\<close>, \<^verbatim>\<open>content\<close>, those
  present, joined as the code joins its own list, and lower-cased.
\<close>

definition specSearchText :: "(jsstring \<Rightarrow> jsstring) \<Rightarrow> GraphNode \<Rightarrow> jsstring" where
  "specSearchText lower n =
     lower (join (js '' '')
       (filterBoolean [Some (node_id n), node_name n, canonical_name n, statement n,
                       Some (node_type n), entity_type n, content n]))"

definition sirtNode :: GraphNode where
  "sirtNode = (plainNode ''E'' ''Entity'')\<lparr>canonical_name := Some (js ''SIRT1 pathway'')\<rparr>"

definition stmtNode :: GraphNode where
  "stmtNode = (plainNode ''r1'' ''Result'')\<lparr>statement := Some (js ''SIRT1 extends lifespan'')\<rparr>"

definition sirtGraph :: GraphData where
  "sirtGraph = \<lparr>nodes = [sirtNode, stmtNode], edges = []\<rparr>"

definition nA :: GraphNode where "nA = plainNode ''A'' ''Paper''"
definition nB :: GraphNode where "nB = plainNode ''B'' ''Entity''"
definition nC :: GraphNode where "nC = plainNode ''C'' ''Result''"

text \<open>Scenario 1 of the specification: \<open>A \<rightarrow> B \<rightarrow> C\<close>.\<close>

definition chainGraph :: GraphData where
  "chainGraph = \<lparr>nodes = [nA, nB, nC], edges = [plainEdge ''A'' ''B'', plainEdge ''B'' ''C'']\<rparr>"

text \<open>One node \<open>A\<close>, an edge into it from an id that no node has, and a loop on \<open>A\<close>.\<close>

definition loopGraph :: GraphData where
  "loopGraph = \<lparr>nodes = [nA], edges = [plainEdge ''X'' ''A'', plainEdge ''A'' ''A'']\<rparr>"

text \<open>One node \<open>A\<close> and a loop on it.\<close>

definition loopOnlyGraph :: GraphData where
  "loopOnlyGraph = \<lparr>nodes = [nA], edges = [plainEdge ''A'' ''A'']\<rparr>"

text \<open>Edges \<open>B \<rightarrow> A\<close>, \<open>X \<rightarrow> A\<close> and \<open>A \<rightarrow> Y\<close>, where no node has the id \<open>X\<close> or \<open>Y\<close>.\<close>

definition danglingGraph :: GraphData where
  "danglingGraph =
     \<lparr>nodes = [nA, nB],
      edges = [plainEdge ''B'' ''A'', plainEdge ''X'' ''A'', plainEdge ''A'' ''Y'']\<rparr>"

text \<open>The state with the graph \<open>A \<rightarrow> B \<rightarrow> C\<close> loaded, once the simulation effect has run.\<close>

definition loadedState :: ViewState where
  "loadedState =
     (case initSimulation (initialState\<lparr>graphData := Some chainGraph, svgMounted := True\<rparr>) of
        Inl e \<Rightarrow> initialState
      | Inr st \<Rightarrow> st)"

definition emptyGraph :: GraphData where
  "emptyGraph = \<lparr>nodes = [], edges = []\<rparr>"

definition emptyGraphState :: ViewState where
  "emptyGraphState = initialState\<lparr>graphData := Some emptyGraph, svgMounted := True\<rparr>"

text \<open>An entity node of paper \<open>p1\<close>; no node has the id \<open>p1\<close>.\<close>

definition paperGraph :: GraphData where
  "paperGraph =
     \<lparr>nodes = [(plainNode ''e1'' ''Entity'')\<lparr>paper_id := Some (js ''p1'')\<rparr>], edges = []\<rparr>"

definition paperState :: ViewState where
  "paperState = initialState\<lparr>graphData := Some paperGraph, svgMounted := True\<rparr>"

text \<open>The id of the node selected after an effect, if the effect ends and a node is selected.\<close>

definition selectedIdAfter :: "EffectError + ViewState \<Rightarrow> jsstring option" where
  "selectedIdAfter r =
     (case r of Inl e \<Rightarrow> None | Inr st \<Rightarrow> map_option node_id (selectedNode st))"

text \<open>Observations of a node object that nothing moves.\<close>

definition stillObs :: "nat \<Rightarrow> GraphNode \<Rightarrow> GraphNode" where
  "stillObs a d = d"

definition oneNodeSim :: Simulation where
  "oneNodeSim = forceSimulation [nA\<lparr>node_x := Some 0, node_y := Some 0\<rparr>]"

text \<open>Forces that leave a free node where it is.\<close>

definition noDrift :: "GraphNode \<Rightarrow> real \<times> real \<times> real \<times> real" where
  "noDrift d = (orDefault (node_x d) 0, orDefault (node_y d) 0, 0, 0)"

definition pointerAt :: "real \<Rightarrow> real \<Rightarrow> DragEvent" where
  "pointerAt px py = \<lparr>ev_active = 0, ev_x = px, ev_y = py\<rparr>"

definition heap0 :: "GraphNode list" where
  "heap0 = [nA, nB]"

declare tryFocus.simps [simp del]
declare tryFocusTarget.simps [simp del]

section \<open>Properties of the search and type filter\<close>

lemma str_includes_sublist: "str_includes s q = sublist q s"
  by (induction s) (auto simp: sublist_Cons_right)

text \<open>
  Claim C1, as the code has it. The text filter does not read the \<^verbatim>\<open>statement\<close> field:
  whatever the host's lower-casing is, a node is listed iff it is a node of the graph,
  passes the type filter, and either the query is blank (empty after \<^verbatim>\<open>trim\<close>) or the
  lower-cased query occurs in the lower-cased text made of the non-empty fields \<^verbatim>\<open>id\<close>,
  \<^verbatim>\<open>name\<close>, \<^verbatim>\<open>canonical_name\<close>, \<^verbatim>\<open>paper_id\<close>, \<^verbatim>\<open>type\<close>, \<^verbatim>\<open>entity_type\<close>,
  \<^verbatim>\<open>content\<close>, joined by single spaces.
\<close>

theorem text_filter_admits:
  "n \<in> set (filterNodes lower g q ts) \<longleftrightarrow>
     n \<in> set (nodes g) \<and> (ts = [] \<or> node_type n \<in> set ts) \<and>
     (trim q = [] \<or>
      sublist (lower q)
        (lower (join (js '' '') (filterBoolean
           [Some (node_id n), node_name n, canonical_name n, paper_id n,
            Some (node_type n), entity_type n, content n]))))"
  by (auto simp: filterNodes_def Let_def str_includes_sublist searchText_def)

text \<open>
  Scenario 2 of the specification: the query \<open>sirt1\<close> finds the node whose canonical
  name is \<open>SIRT1 pathway\<close>.
\<close>

theorem text_filter_admits_witness:
  "sirtNode \<in> set (filterNodes toLowerCaseAscii sirtGraph (js ''sirt1'') [])"
proof -
  have "str_includes (searchText toLowerCaseAscii sirtNode) (toLowerCaseAscii (js ''sirt1''))"
    by (simp add: searchText_def toLowerCaseAscii_def sirtNode_def plainNode_def js_def)
  then have "sublist (toLowerCaseAscii (js ''sirt1''))
      (toLowerCaseAscii (join (js '' '') (filterBoolean
         [Some (node_id sirtNode), node_name sirtNode, canonical_name sirtNode,
          paper_id sirtNode, Some (node_type sirtNode), entity_type sirtNode,
          content sirtNode])))"
    by (simp add: str_includes_sublist searchText_def)
  moreover have "sirtNode \<in> set (nodes sirtGraph)"
    by (simp add: sirtGraph_def)
  ultimately show ?thesis
    using text_filter_admits [of sirtNode toLowerCaseAscii sirtGraph "js ''sirt1''" "[]"]
    by blast
qed

text \<open>
  Claim C1 as stated fails: the query \<open>sirt1\<close> occurs in the text that the specification
  describes for the node whose statement is \<open>SIRT1 extends lifespan\<close>, and the filter
  does not list that node.
\<close>

theorem text_filter_statement_counterexample:
  "sublist (toLowerCaseAscii (js ''sirt1'')) (specSearchText toLowerCaseAscii stmtNode) \<and>
   stmtNode \<notin> set (filterNodes toLowerCaseAscii sirtGraph (js ''sirt1'') [])"
proof -
  have "str_includes (specSearchText toLowerCaseAscii stmtNode) (toLowerCaseAscii (js ''sirt1''))"
    by (simp add: specSearchText_def toLowerCaseAscii_def stmtNode_def plainNode_def js_def)
  then have "sublist (toLowerCaseAscii (js ''sirt1'')) (specSearchText toLowerCaseAscii stmtNode)"
    by (simp add: str_includes_sublist)
  moreover have "stmtNode \<notin> set (filterNodes toLowerCaseAscii sirtGraph (js ''sirt1'') [])"
    by (simp add: filterNodes_def searchText_def toLowerCaseAscii_def sirtGraph_def
          sirtNode_def stmtNode_def plainNode_def js_def trim_def isWhiteSpace_def)
  ultimately show ?thesis by blast
qed

text \<open>
  A query of white space only is blank, also when the white space is not ASCII: for the
  query made of a no-break space (U+00A0) and an ideographic space (U+3000) every node
  is listed, whatever the lower-casing.
\<close>

lemma blank_query_lists_all: "filterNodes lower g [0x00A0, 0x3000] [] = nodes g"
  by (simp add: filterNodes_def trim_def isWhiteSpace_def)

text \<open>
  Claim C6. With graph data loaded, an empty query and no active type filter, the
  filtering effect stores the full node list: the filtered list is the node list, and so
  has its length.
\<close>

theorem no_filter_all_nodes:
  assumes "graphData st = Some g" and "searchQuery st = []" and "selectedTypes st = []"
  shows "filteredNodes (filterEffect lower st) = nodes g \<and>
         length (filteredNodes (filterEffect lower st)) = length (nodes g)"
  using assms by (simp add: filterEffect_def filterNodes_def trim_def)

lemma node_id_initializeNode [simp]: "node_id (initializeNode (i, d)) = node_id d"
  by (simp add: initializeNode_def Let_def)

lemma paper_id_initializeNode [simp]: "paper_id (initializeNode (i, d)) = paper_id d"
  by (simp add: initializeNode_def Let_def)

lemma length_initializeNodes [simp]: "length (initializeNodes ns) = length ns"
  by (simp add: initializeNodes_def)

lemma initializeNodes_eq_Nil [simp]: "initializeNodes ns = [] \<longleftrightarrow> ns = []"
  using length_initializeNodes [of ns] by (metis length_0_conv)

lemma set_initializeNodes:
  assumes "m \<in> set (initializeNodes ns)"
  shows "\<exists>i. \<exists>d\<in>set ns. m = initializeNode (i, d)"
proof -
  from assms obtain i where "i < length ns" "m = initializeNode (i, ns ! i)"
    by (auto simp: initializeNodes_def in_set_enumerate_eq)
  then show ?thesis using nth_mem by blast
qed

lemma sim_nodes_forceSimulation [simp]: "sim_nodes (forceSimulation ns) = initializeNodes ns"
  by (simp add: forceSimulation_def)

lemma node_ids_initializeNodes: "map node_id (initializeNodes ns) = map node_id ns"
  by (auto simp: initializeNodes_def list_eq_iff_nth_eq nth_enumerate_eq)

lemma resolveEnd_Inr:
  "strictEq ep s \<Longrightarrow> s \<in> node_id ` set ns \<Longrightarrow> \<exists>r. resolveEnd ns ep = Inr r"
  by (cases ep) (auto simp: find_None_iff split: option.splits)

lemma bindLinks_Inr:
  "\<forall>l\<in>set ls. (\<exists>s. strictEq (source l) s \<and> s \<in> node_id ` set ns) \<and>
               (\<exists>t. strictEq (target l) t \<and> t \<in> node_id ` set ns)
   \<Longrightarrow> \<exists>ls'. bindLinks ns ls = Inr ls'"
proof (induction ls)
  case Nil
  then show ?case by simp
next
  case (Cons l ls)
  then obtain ls' where "bindLinks ns ls = Inr ls'" by auto
  moreover obtain s where "resolveEnd ns (source l) = Inr s"
    using Cons.prems resolveEnd_Inr by (meson list.set_intros(1))
  moreover obtain t where "resolveEnd ns (target l) = Inr t"
    using Cons.prems resolveEnd_Inr by (meson list.set_intros(1))
  ultimately show ?case by simp
qed

lemma startSimulation_nodes:
  "startSimulation g = Inr sim \<Longrightarrow> sim_nodes sim = initializeNodes (nodes g)"
  by (auto simp: startSimulation_def forceLink_def forceSimulation_def split: sum.splits)

text \<open>The simulation of the graph \<open>A \<rightarrow> B \<rightarrow> C\<close> is made: every end of its edges is found.\<close>

lemma startSimulation_chainGraph: "\<exists>sim. startSimulation chainGraph = Inr sim"
proof -
  have "\<exists>ls'. bindLinks (initializeNodes (nodes chainGraph)) (edges chainGraph) = Inr ls'"
  proof (rule bindLinks_Inr)
    have ids: "node_id ` set (initializeNodes (nodes chainGraph)) = {js ''A'', js ''B'', js ''C''}"
      using node_ids_initializeNodes [of "nodes chainGraph"]
      by (simp add: chainGraph_def nA_def nB_def nC_def plainNode_def flip: set_map)
    show "\<forall>l\<in>set (edges chainGraph).
            (\<exists>s. strictEq (source l) s \<and> s \<in> node_id ` set (initializeNodes (nodes chainGraph))) \<and>
            (\<exists>t. strictEq (target l) t \<and> t \<in> node_id ` set (initializeNodes (nodes chainGraph)))"
      unfolding ids by (simp add: chainGraph_def plainEdge_def)
  qed
  then show ?thesis
    by (auto simp: startSimulation_def forceLink_def)
qed

lemma loadedState_fields:
  "graphData loadedState = Some chainGraph \<and> searchQuery loadedState = [] \<and>
   selectedTypes loadedState = [] \<and> svgMounted loadedState \<and>
   zoomBehaviorRef loadedState = Some mainZoom"
proof -
  obtain sim where "startSimulation chainGraph = Inr sim"
    using startSimulation_chainGraph by blast
  then show ?thesis
    by (simp add: loadedState_def initSimulation_def initialState_def)
qed

theorem no_filter_all_nodes_witness:
  "graphData loadedState = Some chainGraph \<and> searchQuery loadedState = [] \<and>
   selectedTypes loadedState = [] \<and>
   filteredNodes (filterEffect toLowerCaseAscii loadedState) = nodes chainGraph \<and>
   length (filteredNodes (filterEffect toLowerCaseAscii loadedState)) = length (nodes chainGraph)"
proof -
  have h: "graphData loadedState = Some chainGraph" "searchQuery loadedState = []"
    "selectedTypes loadedState = []"
    using loadedState_fields by simp_all
  from no_filter_all_nodes [OF h, of toLowerCaseAscii] h show ?thesis by blast
qed

section \<open>Properties of the ego network\<close>

lemma fold_classifyEdge_incoming:
  "incoming (fold (classifyEdge g n) es acc) = incoming acc @ List.map_filter (incomingPair g n) es"
  by (induction es arbitrary: acc)
     (auto simp: classifyEdge_def incomingPair_def split: option.splits)

lemma fold_classifyEdge_outgoing:
  "outgoing (fold (classifyEdge g n) es acc) = outgoing acc @ List.map_filter (outgoingPair g n) es"
  by (induction es arbitrary: acc)
     (auto simp: classifyEdge_def outgoingPair_def split: option.splits)

lemma filter_outgoingPair_no_loop:
  "filter (\<lambda>p. \<not> isSelfLoop n p) (List.map_filter (outgoingPair g n) es)
     = List.map_filter (outgoingPair g n) es"
  by (induction es) (auto simp: outgoingPair_def isSelfLoop_def split: option.splits)

text \<open>
  Claim C2, as the code has it. The incoming list is, in edge order, the pair (node found
  for the source id, edge) for every edge whose target is the node and whose source id
  is the id of a listed node. The outgoing list, loops on the node set aside, is the
  pair (node found for the target id, edge) for every edge whose source is the node,
  whose target is not, and whose target id is the id of a listed node.
\<close>

theorem ego_network_lists:
  "incoming (findConnectedNodes (Some g) n) = List.map_filter (incomingPair g n) (edges g) \<and>
   filter (\<lambda>p. \<not> isSelfLoop n p) (outgoing (findConnectedNodes (Some g) n))
     = List.map_filter (outgoingPair g n) (edges g)"
  by (simp add: findConnectedNodes_def fold_classifyEdge_incoming fold_classifyEdge_outgoing
        filter_outgoingPair_no_loop)

text \<open>Scenario 1 of the specification: selecting \<open>B\<close> in \<open>A \<rightarrow> B \<rightarrow> C\<close>.\<close>

theorem ego_network_lists_witness:
  "incoming (findConnectedNodes (Some chainGraph) (js ''B'')) = [(nA, plainEdge ''A'' ''B'')] \<and>
   filter (\<lambda>p. \<not> isSelfLoop (js ''B'') p)
     (outgoing (findConnectedNodes (Some chainGraph) (js ''B'')))
     = [(nC, plainEdge ''B'' ''C'')]"
proof -
  have "List.map_filter (incomingPair chainGraph (js ''B'')) (edges chainGraph)
          = [(nA, plainEdge ''A'' ''B'')]"
    by (simp add: chainGraph_def incomingPair_def plainEdge_def nA_def nB_def nC_def
          plainNode_def js_def)
  moreover have "List.map_filter (outgoingPair chainGraph (js ''B'')) (edges chainGraph)
          = [(nC, plainEdge ''B'' ''C'')]"
    by (simp add: chainGraph_def outgoingPair_def plainEdge_def nA_def nB_def nC_def
          plainNode_def js_def)
  ultimately show ?thesis
    using ego_network_lists [of chainGraph "js ''B''"] by simp
qed

text \<open>
  Claim C2 as stated fails on the graph with the node \<open>A\<close>, an edge \<open>X \<rightarrow> A\<close> from an
  unknown id and the loop \<open>A \<rightarrow> A\<close>: the edges of the incoming list are not all edges
  into \<open>A\<close>, and the edges of the outgoing list are not all edges out of \<open>A\<close> (the loop
  is listed as incoming only).
\<close>

theorem ego_network_exact_counterexample:
  "map snd (incoming (findConnectedNodes (Some loopGraph) (js ''A'')))
     \<noteq> edgesInto loopGraph (js ''A'') \<and>
   map snd (outgoing (findConnectedNodes (Some loopGraph) (js ''A'')))
     \<noteq> edgesOutOf loopGraph (js ''A'')"
  by (simp add: loopGraph_def findConnectedNodes_def classifyEdge_def nA_def plainNode_def
        plainEdge_def edgesInto_def edgesOutOf_def js_def)

text \<open>
  The loop alone, on a graph whose simulation is made: the loop is listed as incoming,
  and the outgoing list is empty although the loop is an edge out of \<open>A\<close>.
\<close>

lemma loop_only_lists:
  "map snd (incoming (findConnectedNodes (Some loopOnlyGraph) (js ''A'')))
     = edgesInto loopOnlyGraph (js ''A'') \<and>
   outgoing (findConnectedNodes (Some loopOnlyGraph) (js ''A'')) = [] \<and>
   edgesOutOf loopOnlyGraph (js ''A'') = [plainEdge ''A'' ''A'']"
  by (simp add: loopOnlyGraph_def findConnectedNodes_def classifyEdge_def nA_def plainNode_def
        plainEdge_def edgesInto_def edgesOutOf_def js_def)

lemma startSimulation_loopOnlyGraph: "\<exists>sim. startSimulation loopOnlyGraph = Inr sim"
  by (simp add: startSimulation_def forceLink_def forceSimulation_def initializeNodes_def
        initializeNode_def enumerate_eq_zip upt_rec Let_def loopOnlyGraph_def nA_def
        plainNode_def plainEdge_def js_def)

lemma set_map_filter_eq: "set (List.map_filter f xs) = {y. \<exists>x\<in>set xs. f x = Some y}"
  by (induction xs) (auto split: option.splits)

lemma findNode_Some: "findNode ns ep = Some m \<Longrightarrow> m \<in> set ns \<and> ep = NodeId (node_id m)"
  by (cases ep) (auto simp: find_Some_iff)

lemma incoming_set:
  "set (incoming (findConnectedNodes (Some g) n)) =
     {p. \<exists>e\<in>set (edges g). incomingPair g n e = Some p}"
  by (auto simp: findConnectedNodes_def fold_classifyEdge_incoming set_map_filter_eq)

lemma outgoing_set:
  "set (outgoing (findConnectedNodes (Some g) n)) =
     {p. \<exists>e\<in>set (edges g). outgoingPair g n e = Some p}"
  by (auto simp: findConnectedNodes_def fold_classifyEdge_outgoing set_map_filter_eq)

lemma incomingPair_Some:
  "incomingPair g n e = Some p \<Longrightarrow>
     snd p = e \<and> fst p \<in> set (nodes g) \<and> source e = NodeId (node_id (fst p)) \<and>
     strictEq (target e) n"
  by (auto simp: incomingPair_def split: if_splits dest: findNode_Some)

lemma outgoingPair_Some:
  "outgoingPair g n e = Some p \<Longrightarrow>
     snd p = e \<and> fst p \<in> set (nodes g) \<and> target e = NodeId (node_id (fst p)) \<and>
     strictEq (source e) n"
  by (auto simp: outgoingPair_def split: if_splits dest: findNode_Some)

text \<open>
  Claim C10. The ego network is computed for every graph and node id, and for missing
  graph data it is empty. Every pair of the incoming list holds a node of the node list and
  an edge of the edge list, the node has the edge's source id and the edge's target is the
  given node; likewise for the outgoing list with source and target exchanged. An edge
  whose source id is the id of no listed node is in no pair of the incoming list, and an
  edge whose target id is the id of no listed node is in no pair of the outgoing list.
\<close>

theorem ego_network_resolved:
  "(\<forall>p\<in>set (incoming (findConnectedNodes (Some g) n)).
      fst p \<in> set (nodes g) \<and> snd p \<in> set (edges g) \<and>
      source (snd p) = NodeId (node_id (fst p)) \<and> strictEq (target (snd p)) n) \<and>
   (\<forall>p\<in>set (outgoing (findConnectedNodes (Some g) n)).
      fst p \<in> set (nodes g) \<and> snd p \<in> set (edges g) \<and>
      target (snd p) = NodeId (node_id (fst p)) \<and> strictEq (source (snd p)) n) \<and>
   (\<forall>e::GraphEdge. (\<forall>m\<in>set (nodes g). NodeId (node_id m) \<noteq> source e) \<longrightarrow>
      e \<notin> snd ` set (incoming (findConnectedNodes (Some g) n))) \<and>
   (\<forall>e::GraphEdge. (\<forall>m\<in>set (nodes g). NodeId (node_id m) \<noteq> target e) \<longrightarrow>
      e \<notin> snd ` set (outgoing (findConnectedNodes (Some g) n))) \<and>
   findConnectedNodes None n = \<lparr>incoming = [], outgoing = []\<rparr>"
proof (intro conjI ballI allI impI)
  fix p assume "p \<in> set (incoming (findConnectedNodes (Some g) n))"
  then obtain e where "e \<in> set (edges g)" "incomingPair g n e = Some p"
    by (auto simp: incoming_set)
  then show "fst p \<in> set (nodes g)" "snd p \<in> set (edges g)"
    "source (snd p) = NodeId (node_id (fst p))" "strictEq (target (snd p)) n"
    using incomingPair_Some[of g n e p] by auto
next
  fix p assume "p \<in> set (outgoing (findConnectedNodes (Some g) n))"
  then obtain e where "e \<in> set (edges g)" "outgoingPair g n e = Some p"
    by (auto simp: outgoing_set)
  then show "fst p \<in> set (nodes g)" "snd p \<in> set (edges g)"
    "target (snd p) = NodeId (node_id (fst p))" "strictEq (source (snd p)) n"
    using outgoingPair_Some[of g n e p] by auto
next
  fix e :: GraphEdge assume d: "\<forall>m\<in>set (nodes g). NodeId (node_id m) \<noteq> source e"
  show "e \<notin> snd ` set (incoming (findConnectedNodes (Some g) n))"
  proof
    assume "e \<in> snd ` set (incoming (findConnectedNodes (Some g) n))"
    then obtain p e' where "incomingPair g n e' = Some p" "snd p = e"
      by (auto simp: incoming_set)
    with incomingPair_Some[of g n e' p] d show False by auto
  qed
next
  fix e :: GraphEdge assume d: "\<forall>m\<in>set (nodes g). NodeId (node_id m) \<noteq> target e"
  show "e \<notin> snd ` set (outgoing (findConnectedNodes (Some g) n))"
  proof
    assume "e \<in> snd ` set (outgoing (findConnectedNodes (Some g) n))"
    then obtain p e' where "outgoingPair g n e' = Some p" "snd p = e"
      by (auto simp: outgoing_set)
    with outgoingPair_Some[of g n e' p] d show False by auto
  qed
next
  show "findConnectedNodes None n = \<lparr>incoming = [], outgoing = []\<rparr>"
    by (simp add: findConnectedNodes_def)
qed

text \<open>
  On the graph with the edges \<open>B \<rightarrow> A\<close>, \<open>X \<rightarrow> A\<close> and \<open>A \<rightarrow> Y\<close>: the pair for \<open>B \<rightarrow> A\<close> is
  listed for \<open>A\<close> and its node is a node of the graph; the edges \<open>X \<rightarrow> A\<close> and \<open>A \<rightarrow> Y\<close>
  are left out.
\<close>

theorem ego_network_resolved_witness:
  "(nB, plainEdge ''B'' ''A'')
     \<in> set (incoming (findConnectedNodes (Some danglingGraph) (js ''A''))) \<and>
   nB \<in> set (nodes danglingGraph) \<and>
   findNode (nodes danglingGraph) (source (plainEdge ''X'' ''A'')) = None \<and>
   plainEdge ''X'' ''A''
     \<notin> snd ` set (incoming (findConnectedNodes (Some danglingGraph) (js ''A''))) \<and>
   findNode (nodes danglingGraph) (target (plainEdge ''A'' ''Y'')) = None \<and>
   plainEdge ''A'' ''Y''
     \<notin> snd ` set (outgoing (findConnectedNodes (Some danglingGraph) (js ''A'')))"
proof -
  have mem: "(nB, plainEdge ''B'' ''A'')
               \<in> set (incoming (findConnectedNodes (Some danglingGraph) (js ''A'')))"
    by (simp add: danglingGraph_def findConnectedNodes_def classifyEdge_def nA_def nB_def
          plainNode_def plainEdge_def js_def)
  have dx: "\<forall>m\<in>set (nodes danglingGraph). NodeId (node_id m) \<noteq> source (plainEdge ''X'' ''A'')"
    by (simp add: danglingGraph_def nA_def nB_def plainNode_def plainEdge_def js_def)
  have dy: "\<forall>m\<in>set (nodes danglingGraph). NodeId (node_id m) \<noteq> target (plainEdge ''A'' ''Y'')"
    by (simp add: danglingGraph_def nA_def nB_def plainNode_def plainEdge_def js_def)
  note r = ego_network_resolved [of danglingGraph "js ''A''"]
  from r mem have "nB \<in> set (nodes danglingGraph)" by fastforce
  moreover from r dx
  have "plainEdge ''X'' ''A''
          \<notin> snd ` set (incoming (findConnectedNodes (Some danglingGraph) (js ''A'')))"
    by blast
  moreover from r dy
  have "plainEdge ''A'' ''Y''
          \<notin> snd ` set (outgoing (findConnectedNodes (Some danglingGraph) (js ''A'')))"
    by blast
  moreover have "findNode (nodes danglingGraph) (source (plainEdge ''X'' ''A'')) = None"
    "findNode (nodes danglingGraph) (target (plainEdge ''A'' ''Y'')) = None"
    by (simp_all add: danglingGraph_def nA_def nB_def plainNode_def plainEdge_def js_def)
  ultimately show ?thesis using mem by blast
qed

section \<open>Properties of rendering and of the viewport\<close>

text \<open>
  Claim C3, as the code has it. Without graph data (\<^verbatim>\<open>graphData\<close> is \<^verbatim>\<open>null\<close>) the
  simulation effect changes nothing, and the component shows the ``no data'' message
  unless it is loading or has an error message to show.
\<close>

theorem no_graph_data_view:
  assumes "graphData st = None"
  shows "initSimulation st = Inr st \<and> simulationEffect obs focusNodeId st = Inr st \<and>
         (\<not> loading st \<and> (error st = None \<or> error st = Some []) \<longrightarrow> render st = NoDataView)"
  using assms
  by (auto simp: initSimulation_def simulationEffect_def render_def renderGraph_def)

theorem no_graph_data_view_witness:
  "graphData initialState = None \<and> initSimulation initialState = Inr initialState \<and>
   simulationEffect stillObs None initialState = Inr initialState \<and>
   render initialState = NoDataView"
proof -
  have h: "graphData initialState = None" "\<not> loading initialState" "error initialState = None"
    by (simp_all add: initialState_def)
  from no_graph_data_view [OF h(1), of stillObs None] h show ?thesis by blast
qed

text \<open>
  Claim C3 as stated fails: a loaded graph with zero nodes is shown as the graph view,
  not as the ``no data'' message, and the simulation effect makes a simulation over the
  empty node array.
\<close>

theorem empty_graph_counterexample:
  "nodes emptyGraph = [] \<and> graphData emptyGraphState = Some emptyGraph \<and>
   render emptyGraphState = GraphView emptyGraph \<and>
   render emptyGraphState \<noteq> NoDataView \<and>
   initSimulation emptyGraphState
     = Inr (emptyGraphState\<lparr>zoomBehaviorRef := Some mainZoom,
                            simulationRef := Some (forceSimulation [])\<rparr>) \<and>
   initSimulation emptyGraphState \<noteq> Inr emptyGraphState"
  by (simp add: emptyGraphState_def emptyGraph_def initialState_def render_def renderGraph_def
        initSimulation_def startSimulation_def forceLink_def forceSimulation_def
        initializeNodes_def)

text \<open>
  The zero-node sentence for every state: with a loaded graph of zero nodes and the canvas
  mounted, the effect makes the simulation over the empty node array, and the component
  shows the graph view unless it is loading or shows an error.
\<close>

lemma empty_graph_view:
  assumes "graphData st = Some g" and "nodes g = []" and "edges g = []" and "svgMounted st"
  shows "initSimulation st
           = Inr (st\<lparr>zoomBehaviorRef := Some mainZoom,
                     simulationRef := Some (forceSimulation [])\<rparr>) \<and>
         (\<not> loading st \<and> error st = None \<longrightarrow> render st = GraphView g)"
  using assms
  by (simp add: initSimulation_def startSimulation_def forceLink_def forceSimulation_def
        initializeNodes_def render_def renderGraph_def)

text \<open>The effect ends with an exception of the library when an edge end has no node.\<close>

lemma initSimulation_dangling:
  "initSimulation (initialState\<lparr>graphData := Some danglingGraph, svgMounted := True\<rparr>)
     = Inl (NodeNotFound (js ''X''))"
  by (simp add: initSimulation_def startSimulation_def forceLink_def forceSimulation_def
        initializeNodes_def initializeNode_def enumerate_eq_zip upt_rec Let_def
        danglingGraph_def nA_def nB_def plainNode_def plainEdge_def initialState_def js_def)

lemma initSimulation_zoom:
  "initSimulation st = Inr st' \<Longrightarrow> graphData st \<noteq> None \<Longrightarrow> svgMounted st
     \<Longrightarrow> zoomBehaviorRef st' = Some mainZoom"
  by (auto simp: initSimulation_def split: option.splits sum.splits)

text \<open>
  Claim C7. With the zoom behaviour of the main canvas, whose scale extent is
  \<open>[0.1, 4]\<close>, the scale after a user pan or zoom is within \<open>[0.1, 4]\<close>, whatever transform
  the gesture asks for, and whatever wheel step is applied to whatever current transform.
\<close>

theorem user_zoom_clamped:
  "1 / 10 \<le> zoom_k (applyUserPanZoom mainZoom requested) \<and>
   zoom_k (applyUserPanZoom mainZoom requested) \<le> 4 \<and>
   1 / 10 \<le> zoom_k (wheelZoom mainZoom delta t) \<and>
   zoom_k (wheelZoom mainZoom delta t) \<le> 4"
  by (simp add: wheelZoom_def applyUserPanZoom_def clampScale_def mainZoom_def)

theorem user_zoom_clamped_witness:
  "zoom_k (wheelZoom mainZoom 10 zoomIdentity) \<le> 4 \<and>
   1 / 10 \<le> zoom_k (wheelZoom mainZoom (- 10) zoomIdentity)"
  using user_zoom_clamped [of zoomIdentity 10 zoomIdentity]
        user_zoom_clamped [of zoomIdentity "- 10" zoomIdentity]
  by blast

text \<open>
  The scale stays within the extent over any sequence of viewport events: the focus
  transitions end at scale 2.5 and the reset at scale 1, the user gestures are clamped.
\<close>

lemma scaleInExtent_performFocus: "scaleInExtent st \<Longrightarrow> scaleInExtent (performFocus d st)"
  by (auto simp: scaleInExtent_def performFocus_def translate_def scale_def zoomIdentity_def
        Let_def split: option.splits)

lemma scaleInExtent_tryFocus: "scaleInExtent st \<Longrightarrow> scaleInExtent (tryFocus obs d a st)"
proof (induction obs d a st rule: tryFocus.induct)
  case (1 obs d a st)
  then show ?case
    by (subst tryFocus.simps) (simp add: scaleInExtent_performFocus)
qed

lemma scaleInExtent_tryFocusTarget:
  "scaleInExtent st \<Longrightarrow> scaleInExtent (tryFocusTarget obs w h d a st)"
proof (induction obs w h d a st rule: tryFocusTarget.induct)
  case (1 obs w h d a st)
  then show ?case
    by (subst tryFocusTarget.simps)
       (auto simp: scaleInExtent_def translate_def scale_def zoomIdentity_def
          split: option.splits)
qed

lemma scaleInExtent_select:
  "scaleInExtent st \<Longrightarrow>
   scaleInExtent (st\<lparr>selectedNode := s, showFullContent := a, showLocalGraph := b\<rparr>)"
  by (simp add: scaleInExtent_def)

lemma scaleInExtent_focusTarget:
  assumes "scaleInExtent st"
  shows "scaleInExtent (focusTarget obs f ns st)"
proof -
  have "scaleInExtent (st\<lparr>selectedNode := Some n\<rparr>)" for n
    using assms by (simp add: scaleInExtent_def)
  then show ?thesis
    using assms by (auto simp: focusTarget_def scaleInExtent_tryFocusTarget split: option.splits)
qed

lemma scaleInExtent_simulationEffect:
  assumes "scaleInExtent st" and "simulationEffect obs f st = Inr st'"
  shows "scaleInExtent st'"
proof -
  have "scaleInExtent (st\<lparr>zoomBehaviorRef := Some mainZoom, simulationRef := Some sim\<rparr>)" for sim
    using assms(1) by (simp add: scaleInExtent_def)
  then show ?thesis
    using assms
    by (auto simp: simulationEffect_def scaleInExtent_focusTarget
          split: option.splits if_splits sum.splits)
qed

lemma scaleInExtent_step:
  assumes "scaleInExtent st" and "viewportStep ev st = Inr st'"
  shows "scaleInExtent st'"
proof (cases ev)
  case (RunSimulationEffect obs f)
  then show ?thesis using assms scaleInExtent_simulationEffect by simp
next
  case (UserPanZoom req)
  then show ?thesis using assms
    by (auto simp: scaleInExtent_def applyUserPanZoom_def clampScale_def mainZoom_def
          split: option.splits)
next
  case (WheelZoom delta)
  then show ?thesis using assms
    by (auto simp: scaleInExtent_def wheelZoom_def applyUserPanZoom_def clampScale_def
          mainZoom_def split: option.splits)
next
  case ResetZoom
  have "scaleInExtent (resetZoom st)"
    using assms(1) by (auto simp: scaleInExtent_def resetZoom_def zoomIdentity_def)
  then show ?thesis using ResetZoom assms(2) by simp
next
  case (FocusFromSearch obs nodeId)
  have "scaleInExtent (focusOnNodeFromSearch obs st nodeId)"
    using assms(1)
    by (auto simp: focusOnNodeFromSearch_def Let_def
          intro!: scaleInExtent_performFocus scaleInExtent_tryFocus scaleInExtent_select
          split: option.splits)
  then show ?thesis using FocusFromSearch assms(2) by simp
next
  case (FocusOnNode nodeId)
  have "scaleInExtent (focusOnNode st nodeId)"
    using assms(1)
    by (auto simp: focusOnNode_def Let_def scaleInExtent_def translate_def scale_def
          zoomIdentity_def split: option.splits)
  then show ?thesis using FocusOnNode assms(2) by simp
qed

lemma viewport_scale_invariant:
  "scaleInExtent st \<Longrightarrow> viewportRun evs st = Inr st' \<Longrightarrow> scaleInExtent st'"
proof (induction evs arbitrary: st)
  case Nil
  then show ?case by simp
next
  case (Cons ev evs)
  then show ?case
    by (auto split: sum.splits dest: scaleInExtent_step)
qed

lemma scaleInExtent_initialState: "scaleInExtent initialState"
  by (simp add: scaleInExtent_def initialState_def zoomIdentity_def)

text \<open>
  Claim C8, as the code has it. With a graph loaded in which no node has the given id,
  focusing from the search panel or from a connection list leaves the whole state as it
  is: selection, view flags and viewport transform, with no polling started. For the
  \<^verbatim>\<open>focusNodeId\<close> property the same holds if, besides, no node has the given string as
  its paper id: the simulation effect then does what it does without the property.
\<close>

theorem focus_absent_noop:
  assumes "graphData st = Some g" and "\<forall>n\<in>set (nodes g). node_id n \<noteq> nodeId"
  shows "focusOnNodeFromSearch obs st nodeId = st \<and> focusOnNode st nodeId = st \<and>
         ((\<forall>n\<in>set (nodes g). paper_id n \<noteq> Some nodeId) \<longrightarrow>
            simulationEffect obs (Some nodeId) st = simulationEffect obs None st)"
proof -
  have none: "find (\<lambda>n. node_id n = nodeId) (nodes g) = None"
    using assms(2) by (simp add: find_None_iff)
  have a: "focusOnNodeFromSearch obs st nodeId = st \<and> focusOnNode st nodeId = st"
    using assms(1) none by (simp add: focusOnNodeFromSearch_def focusOnNode_def)
  have b: "simulationEffect obs (Some nodeId) st = simulationEffect obs None st"
    if p: "\<forall>n\<in>set (nodes g). paper_id n \<noteq> Some nodeId"
  proof -
    have "find (\<lambda>n. node_id n = nodeId \<or> paper_id n = Some nodeId) (initializeNodes (nodes g))
            = None"
      using assms(2) p by (auto simp: find_None_iff dest!: set_initializeNodes)
    then have "focusTarget obs (Some nodeId) (sim_nodes sim) st1 = focusTarget obs None (sim_nodes sim) st1"
      if "startSimulation g = Inr sim" for sim st1
      using startSimulation_nodes [OF that] by (simp add: focusTarget_def)
    then show ?thesis
      using assms(1) by (simp add: simulationEffect_def split: sum.splits)
  qed
  from a b show ?thesis by blast
qed

text \<open>Scenario 3 of the specification, on the graph \<open>A \<rightarrow> B \<rightarrow> C\<close>.\<close>

theorem focus_absent_noop_witness:
  "graphData loadedState = Some chainGraph \<and>
   focusOnNodeFromSearch stillObs loadedState (js ''nonexistent-id'') = loadedState \<and>
   focusOnNode loadedState (js ''nonexistent-id'') = loadedState \<and>
   simulationEffect stillObs (Some (js ''nonexistent-id'')) loadedState
     = simulationEffect stillObs None loadedState"
proof -
  have h: "graphData loadedState = Some chainGraph"
    using loadedState_fields by simp
  have i: "\<forall>n\<in>set (nodes chainGraph). node_id n \<noteq> js ''nonexistent-id''"
    by (simp add: chainGraph_def nA_def nB_def nC_def plainNode_def js_def)
  have p: "\<forall>n\<in>set (nodes chainGraph). paper_id n \<noteq> Some (js ''nonexistent-id'')"
    by (simp add: chainGraph_def nA_def nB_def nC_def plainNode_def)
  from focus_absent_noop [OF h i, of stillObs] p h show ?thesis by blast
qed

lemma tryFocusTarget_selected:
  "selectedNode (tryFocusTarget obs w h d a st) = selectedNode st"
  by (induction obs w h d a st rule: tryFocusTarget.induct)
     (subst tryFocusTarget.simps, auto split: option.splits prod.splits)

text \<open>
  Claim C8 as stated fails for the \<^verbatim>\<open>focusNodeId\<close> property: no node of the graph has the
  id \<open>p1\<close>, a node has the paper id \<open>p1\<close>, and the effect selects that node, \<open>e1\<close>.
\<close>

theorem focus_paper_id_counterexample:
  "js ''p1'' \<notin> set (map node_id (nodes paperGraph)) \<and>
   selectedNode paperState = None \<and>
   selectedIdAfter (simulationEffect stillObs (Some (js ''p1'')) paperState) = Some (js ''e1'')"
  by (simp add: simulationEffect_def startSimulation_def forceLink_def forceSimulation_def
        initializeNodes_def enumerate_eq_zip upt_rec focusTarget_def tryFocusTarget_selected
        selectedIdAfter_def paperState_def paperGraph_def initialState_def plainNode_def js_def)

section \<open>Properties of dragging\<close>

lemma length_dragStep [simp]: "length (sim_nodes (dragStep i s sim)) = length (sim_nodes sim)"
  by (cases s) (simp_all add: dragMove_def updNode_def tick_def)

lemma length_fold_dragStep [simp]:
  "length (sim_nodes (fold (dragStep i) steps sim)) = length (sim_nodes sim)"
  by (induction steps arbitrary: sim) simp_all

lemma length_dragStart [simp]: "length (sim_nodes (dragStart ev i sim)) = length (sim_nodes sim)"
  by (simp add: dragStart_def updNode_def)

lemma dragEnd_node:
  "i < length (sim_nodes sim) \<Longrightarrow>
   sim_nodes (dragEnd ev i sim) ! i = (sim_nodes sim ! i)\<lparr>fx := None, fy := None\<rparr>"
  by (simp add: dragEnd_def updNode_def)

lemma dragMove_node:
  "i < length (sim_nodes sim) \<Longrightarrow>
   fx (sim_nodes (dragMove ev i sim) ! i) = Some (ev_x ev) \<and>
   fy (sim_nodes (dragMove ev i sim) ! i) = Some (ev_y ev)"
  by (simp add: dragMove_def updNode_def)

lemma tick_pinned:
  assumes "i < length (sim_nodes sim)"
    and "fx (sim_nodes sim ! i) = Some px" and "fy (sim_nodes sim ! i) = Some py"
  shows "fx (sim_nodes (tick integ sim) ! i) = Some px \<and>
         fy (sim_nodes (tick integ sim) ! i) = Some py \<and>
         node_x (sim_nodes (tick integ sim) ! i) = Some px \<and>
         node_y (sim_nodes (tick integ sim) ! i) = Some py"
  using assms by (simp add: tick_def tickNode_def split: prod.splits)

lemma ticks_pinned:
  assumes "i < length (sim_nodes sim)"
    and "fx (sim_nodes sim ! i) = Some px" and "fy (sim_nodes sim ! i) = Some py"
    and "ts \<noteq> []"
  shows "node_x (sim_nodes (fold (dragStep i) (map Tick ts) sim) ! i) = Some px \<and>
         node_y (sim_nodes (fold (dragStep i) (map Tick ts) sim) ! i) = Some py"
  using assms
proof (induction ts arbitrary: sim)
  case Nil
  then show ?case by simp
next
  case (Cons t ts)
  have len: "i < length (sim_nodes (tick t sim))"
    using Cons.prems(1) by (simp add: tick_def)
  note pinned = tick_pinned [OF Cons.prems(1,2,3), of t]
  show ?case
  proof (cases "ts = []")
    case True
    then show ?thesis using pinned by simp
  next
    case False
    then show ?thesis using Cons.IH [OF len _ _ False] pinned by simp
  qed
qed

text \<open>
  Claim C4, as the code has it. For a gesture start, then pointer moves and simulation
  ticks in any order, then end, on a node of the simulation: after the end both pins
  \<^verbatim>\<open>fx\<close> and \<^verbatim>\<open>fy\<close> are null. The handlers never write \<^verbatim>\<open>x\<close> and \<^verbatim>\<open>y\<close>; the
  position after the end is the coordinate of the last move if at least one tick ran
  between that move and the end.
\<close>

theorem drag_sequence_end:
  assumes "i < length (sim_nodes sim)"
  shows "fx (sim_nodes (dragSequence i evStart steps evEnd sim) ! i) = None \<and>
         fy (sim_nodes (dragSequence i evStart steps evEnd sim) ! i) = None \<and>
         (ts \<noteq> [] \<and> steps = pre @ Move ev # map Tick ts \<longrightarrow>
            node_x (sim_nodes (dragSequence i evStart steps evEnd sim) ! i) = Some (ev_x ev) \<and>
            node_y (sim_nodes (dragSequence i evStart steps evEnd sim) ! i) = Some (ev_y ev))"
proof -
  let ?s0 = "dragStart evStart i sim"
  have len: "i < length (sim_nodes (fold (dragStep i) st ?s0))" for st
    using assms by simp
  have pins: "fx (sim_nodes (dragSequence i evStart steps evEnd sim) ! i) = None \<and>
         fy (sim_nodes (dragSequence i evStart steps evEnd sim) ! i) = None"
    using len [of steps] by (simp add: dragSequence_def dragEnd_node)
  have pos: "node_x (sim_nodes (dragSequence i evStart steps evEnd sim) ! i) = Some (ev_x ev) \<and>
            node_y (sim_nodes (dragSequence i evStart steps evEnd sim) ! i) = Some (ev_y ev)"
    if ts: "ts \<noteq> []" and st: "steps = pre @ Move ev # map Tick ts"
  proof -
    let ?s1 = "dragMove ev i (fold (dragStep i) pre ?s0)"
    have l1: "i < length (sim_nodes ?s1)"
      using len [of pre] by (simp add: dragMove_def updNode_def)
    have m: "fx (sim_nodes ?s1 ! i) = Some (ev_x ev)" "fy (sim_nodes ?s1 ! i) = Some (ev_y ev)"
      using dragMove_node [OF len [of pre]] by simp_all
    have "fold (dragStep i) steps ?s0 = fold (dragStep i) (map Tick ts) ?s1"
      by (simp add: st)
    with ticks_pinned [OF l1 m ts] len [of steps] show ?thesis
      by (simp add: dragSequence_def dragEnd_node)
  qed
  from pins pos show ?thesis by blast
qed

text \<open>A node at the origin is dragged to \<open>(5, 7)\<close>, one tick runs, the button is released.\<close>

theorem drag_sequence_end_witness:
  "fx (sim_nodes (dragSequence 0 (pointerAt 0 0) [Move (pointerAt 5 7), Tick noDrift]
                    (pointerAt 5 7) oneNodeSim) ! 0) = None \<and>
   node_x (sim_nodes (dragSequence 0 (pointerAt 0 0) [Move (pointerAt 5 7), Tick noDrift]
                    (pointerAt 5 7) oneNodeSim) ! 0) = Some 5 \<and>
   node_y (sim_nodes (dragSequence 0 (pointerAt 0 0) [Move (pointerAt 5 7), Tick noDrift]
                    (pointerAt 5 7) oneNodeSim) ! 0) = Some 7"
proof -
  have h: "0 < length (sim_nodes oneNodeSim)"
    by (simp add: oneNodeSim_def forceSimulation_def)
  have s: "[noDrift] \<noteq> [] \<and>
           [Move (pointerAt 5 7), Tick noDrift] = [] @ Move (pointerAt 5 7) # map Tick [noDrift]"
    by simp
  from drag_sequence_end [OF h, of "pointerAt 0 0" "[Move (pointerAt 5 7), Tick noDrift]"
      "pointerAt 5 7" "[noDrift]" "[]" "pointerAt 5 7"] s
  show ?thesis by (simp add: pointerAt_def)
qed

text \<open>
  Claim C4 as stated fails when no tick runs between the last move and the end: the node
  at the origin is dragged to \<open>(5, 7)\<close> and released, and its position is still the
  origin.
\<close>

theorem drag_position_counterexample:
  "ev_x (pointerAt 5 7) = 5 \<and>
   node_x (sim_nodes (dragSequence 0 (pointerAt 0 0) [Move (pointerAt 5 7)]
                    (pointerAt 5 7) oneNodeSim) ! 0) = Some 0 \<and>
   node_y (sim_nodes (dragSequence 0 (pointerAt 0 0) [Move (pointerAt 5 7)]
                    (pointerAt 5 7) oneNodeSim) ! 0) = Some 0"
  by (simp add: dragSequence_def dragStart_def dragEnd_def dragMove_def updNode_def
        oneNodeSim_def forceSimulation_def initializeNodes_def initializeNode_def
        enumerate_eq_zip upt_rec Let_def nA_def plainNode_def pointerAt_def)

section \<open>Properties of the ego graph\<close>

lemma nodesCopy_nth:
  "i < length ls \<Longrightarrow> nodesCopy w h sel ls ! i = cloneLocal w h sel (length ls) (i, ls ! i)"
  by (simp add: nodesCopy_def nth_enumerate_eq)

text \<open>
  Claim C5, as the code has it. The local node list is the selected node followed by its
  \<open>k \<ge> 1\<close> neighbours. The copy of the selected node starts at the panel centre, pinned
  there. The angle of a neighbour is its index in the local node list, which runs from
  \<open>1\<close> to \<open>k\<close>, times \<open>2\<pi> / k\<close>: the neighbour \<open>j\<close> of \<open>0 .. k - 1\<close>, if its id is not that of
  the selected node, starts at radius 80 from the centre at angle \<open>(j + 1) * 2\<pi> / k\<close>.
\<close>

theorem ego_start_positions:
  assumes "nbrs \<noteq> []"
  shows "fx (nodesCopy w h sel (sel # nbrs) ! 0) = Some (w / 2) \<and>
         fy (nodesCopy w h sel (sel # nbrs) ! 0) = Some (h / 2) \<and>
         node_x (nodesCopy w h sel (sel # nbrs) ! 0) = Some (w / 2) \<and>
         node_y (nodesCopy w h sel (sel # nbrs) ! 0) = Some (h / 2) \<and>
         (\<forall>j < length nbrs. node_id (nbrs ! j) \<noteq> node_id sel \<longrightarrow>
            node_x (nodesCopy w h sel (sel # nbrs) ! (j + 1))
              = Some (w / 2 + cos (real (j + 1) * 2 * pi / real (length nbrs)) * 80) \<and>
            node_y (nodesCopy w h sel (sel # nbrs) ! (j + 1))
              = Some (h / 2 + sin (real (j + 1) * 2 * pi / real (length nbrs)) * 80))"
  by (auto simp: nodesCopy_nth cloneLocal_def Let_def)

text \<open>
  The panel of width 384 has a canvas of 344 by 250. With the neighbours \<open>B\<close> and \<open>C\<close>
  of \<open>A\<close>, the copy of \<open>A\<close> is pinned at \<open>(172, 125)\<close> and the copy of \<open>B\<close> starts at angle
  \<open>\<pi>\<close>, at \<open>(92, 125)\<close>.
\<close>

theorem ego_start_positions_witness:
  "localWidth 384 = 344 \<and> localHeight 384 = 250 \<and>
   fx (nodesCopy 344 250 nA (nA # [nB, nC]) ! 0) = Some 172 \<and>
   fy (nodesCopy 344 250 nA (nA # [nB, nC]) ! 0) = Some 125 \<and>
   node_x (nodesCopy 344 250 nA (nA # [nB, nC]) ! (0 + 1)) = Some 92 \<and>
   node_y (nodesCopy 344 250 nA (nA # [nB, nC]) ! (0 + 1)) = Some 125"
proof -
  have h: "[nB, nC] \<noteq> []" by simp
  have d: "(0::nat) < length [nB, nC] \<and> node_id ([nB, nC] ! 0) \<noteq> node_id nA"
    by (simp add: nA_def nB_def plainNode_def js_def)
  have s: "localWidth 384 = 344 \<and> localHeight 384 = 250"
    by (simp add: localWidth_def localHeight_def)
  note r = ego_start_positions [OF h, of 344 250 nA]
  from r d have
    "node_x (nodesCopy 344 250 nA (nA # [nB, nC]) ! (0 + 1))
       = Some (344 / 2 + cos (real (0 + 1) * 2 * pi / real (length [nB, nC])) * 80) \<and>
     node_y (nodesCopy 344 250 nA (nA # [nB, nC]) ! (0 + 1))
       = Some (250 / 2 + sin (real (0 + 1) * 2 * pi / real (length [nB, nC])) * 80)"
    by blast
  then have "node_x (nodesCopy 344 250 nA (nA # [nB, nC]) ! (0 + 1)) = Some 92 \<and>
     node_y (nodesCopy 344 250 nA (nA # [nB, nC]) ! (0 + 1)) = Some 125"
    by simp
  moreover from r have "fx (nodesCopy 344 250 nA (nA # [nB, nC]) ! 0) = Some 172 \<and>
     fy (nodesCopy 344 250 nA (nA # [nB, nC]) ! 0) = Some 125"
    by simp
  ultimately show ?thesis using s by blast
qed

text \<open>
  Claim C5 as stated fails for \<open>k = 2\<close>: the neighbour \<open>0\<close> does not start at angle
  \<open>0 * 2\<pi> / 2\<close>, which is the point \<open>(252, 125)\<close>; it starts at \<open>(92, 125)\<close>.
\<close>

theorem ego_angle_counterexample:
  "node_x (nodesCopy 344 250 nA [nA, nB, nC] ! 1) = Some 92 \<and>
   344 / 2 + cos (0 * 2 * pi / 2) * 80 = (252::real) \<and>
   node_x (nodesCopy 344 250 nA [nA, nB, nC] ! 1) \<noteq> Some (344 / 2 + cos (0 * 2 * pi / 2) * 80)"
  by (simp add: nodesCopy_def enumerate_eq_zip cloneLocal_def nA_def nB_def nC_def plainNode_def
        upt_rec js_def)

text \<open>With at least one neighbour, the ego graph is made and its nodes are these copies.\<close>

lemma createLocalGraph_copies:
  assumes "inc @ out \<noteq> []"
  shows "createLocalGraph heap (Some sel) True True inc out pw =
           (heap @ initializeNodes (nodesCopy (localWidth pw) (localHeight pw) (heap ! sel)
                                      (map ((!) heap) (sel # inc @ out))),
            Some \<lparr>ls_nodes = [length heap ..< length heap + Suc (length inc + length out)],
                  ls_width = localWidth pw, ls_height = localHeight pw, ls_selected = sel\<rparr>)"
  using assms by (auto simp: createLocalGraph_def Let_def nodesCopy_def)

lemma take_modify: "n \<le> a \<Longrightarrow> take n (modify a f heap) = take n heap"
  by (simp add: modify_def)

lemma take_fold_modify:
  "\<forall>a\<in>set as. n \<le> a \<Longrightarrow> take n (fold (\<lambda>a. modify a (f a)) as heap) = take n heap"
  by (induction as arbitrary: heap) (simp_all add: take_modify)

lemma take_localStep:
  assumes "\<forall>a\<in>set (ls_nodes ls). n \<le> a"
  shows "take n (localStep ls ev heap) = take n heap"
proof (cases ev)
  case (LocalTick integ)
  then show ?thesis
    using take_fold_modify [OF assms, of "\<lambda>a. keepInBounds (ls_width ls) (ls_height ls)"]
          take_fold_modify [OF assms, of "\<lambda>a. tickNode integ"]
    by (simp add: localTick_def)
next
  case ReleasePin
  show ?thesis
  proof (cases "find (\<lambda>a. node_id (heap ! a) = node_id (heap ! ls_selected ls)) (ls_nodes ls)")
    case None
    then show ?thesis using ReleasePin by (simp add: releasePin_def)
  next
    case (Some c)
    then have "c \<in> set (ls_nodes ls)" by (auto simp: find_Some_iff)
    with assms have "n \<le> c" by blast
    then show ?thesis using ReleasePin Some by (simp add: releasePin_def take_modify)
  qed
qed

lemma take_fold_localStep:
  "\<forall>a\<in>set (ls_nodes ls). n \<le> a \<Longrightarrow> take n (fold (localStep ls) evs heap) = take n heap"
  by (induction evs arbitrary: heap) (simp_all add: take_localStep)

lemma createLocalGraph_fresh:
  assumes "createLocalGraph heap selected mounted showLocal inc out pw = (heap', Some ls)"
  shows "(\<forall>a\<in>set (ls_nodes ls). length heap \<le> a) \<and> take (length heap) heap' = heap"
  using assms
  by (auto simp: createLocalGraph_def Let_def split: option.splits if_splits)

lemma createLocalGraph_none:
  assumes "createLocalGraph heap selected mounted showLocal inc out pw = (heap', None)"
  shows "heap' = heap"
  using assms
  by (auto simp: createLocalGraph_def Let_def split: option.splits if_splits)

text \<open>
  Claim C9. Whatever node objects exist when the ego graph is made, and whichever of them
  are the selected node and its neighbours, every one of these objects has all its fields
  (so \<^verbatim>\<open>x\<close>, \<^verbatim>\<open>y\<close>, \<^verbatim>\<open>fx\<close>, \<^verbatim>\<open>fy\<close>, \<^verbatim>\<open>vx\<close>, \<^verbatim>\<open>vy\<close>) unchanged after the
  ego graph is made and after any sequence of ticks and pin releases of its simulation:
  the start positions, the pin, the per-tick writes and the pin release go to the
  copies, which are new objects.
\<close>

theorem ego_simulation_frame:
  "take (length heap)
     (localRun (snd (createLocalGraph heap selected mounted showLocal inc out pw)) evs
        (fst (createLocalGraph heap selected mounted showLocal inc out pw))) = heap"
proof (cases "createLocalGraph heap selected mounted showLocal inc out pw")
  case (Pair heap' sim)
  show ?thesis
  proof (cases sim)
    case None
    with Pair createLocalGraph_none [of heap selected mounted showLocal inc out pw heap']
    show ?thesis by simp
  next
    case (Some ls)
    with Pair createLocalGraph_fresh [of heap selected mounted showLocal inc out pw heap' ls]
    show ?thesis by (simp add: take_fold_localStep)
  qed
qed

lemma createLocalGraph_heap0:
  "createLocalGraph heap0 (Some 0) True True [1] [] 384 =
     (heap0 @ initializeNodes (nodesCopy 344 250 nA [nA, nB]),
      Some \<lparr>ls_nodes = [2, 3], ls_width = 344, ls_height = 250, ls_selected = 0\<rparr>)"
  by (simp add: createLocalGraph_def heap0_def localWidth_def localHeight_def nodesCopy_def
        upt_rec Let_def)

text \<open>
  The objects \<open>A\<close> (selected) and \<open>B\<close> (its neighbour) at the addresses 0 and 1: the
  ego graph is made with copies at the addresses 2 and 3, a tick and the pin release
  run, and the objects at 0 and 1 are as before, while the copy of \<open>A\<close> is pinned at
  \<open>(172, 125)\<close> when made.
\<close>

theorem ego_simulation_frame_witness:
  "take (length heap0)
     (localRun (snd (createLocalGraph heap0 (Some 0) True True [1] [] 384))
        [LocalTick noDrift, ReleasePin]
        (fst (createLocalGraph heap0 (Some 0) True True [1] [] 384))) = heap0 \<and>
   snd (createLocalGraph heap0 (Some 0) True True [1] [] 384)
     = Some \<lparr>ls_nodes = [2, 3], ls_width = 344, ls_height = 250, ls_selected = 0\<rparr> \<and>
   fx (fst (createLocalGraph heap0 (Some 0) True True [1] [] 384) ! 2) = Some 172 \<and>
   fx (fst (createLocalGraph heap0 (Some 0) True True [1] [] 384) ! 0) = None"
proof -
  have "fx (fst (createLocalGraph heap0 (Some 0) True True [1] [] 384) ! 2) = Some 172 \<and>
        fx (fst (createLocalGraph heap0 (Some 0) True True [1] [] 384) ! 0) = None"
    unfolding createLocalGraph_heap0
    by (simp add: heap0_def nodesCopy_def initializeNodes_def initializeNode_def
          enumerate_eq_zip cloneLocal_def nA_def nB_def plainNode_def upt_rec Let_def js_def)
  moreover have "snd (createLocalGraph heap0 (Some 0) True True [1] [] 384)
      = Some \<lparr>ls_nodes = [2, 3], ls_width = 344, ls_height = 250, ls_selected = 0\<rparr>"
    unfolding createLocalGraph_heap0 by (rule snd_conv)
  ultimately show ?thesis
    using ego_simulation_frame [of heap0 "Some 0" True True "[1]" "[]" 384
            "[LocalTick noDrift, ReleasePin]"]
    by blast
qed

end
